theory Spec2Isabelle
  imports Main "HOL-Library.AList"
begin

section \<open>Strings\<close>

text \<open>
  A Python \<open>str\<close> is a sequence of code points. It is modelled as an Isabelle \<open>string\<close>
  whose characters are the code points below 256, the character \<open>c\<close> standing for the
  code point \<open>of_char c\<close>; a text with a code point from 256 on is not covered. On these
  code points the definitions below are what Python does: \<open>str.isspace\<close>,
  \<open>str.strip\<close> and the class \<open>\s\<close> of a pattern over \<open>str\<close> accept the twelve
  characters of \<open>whitespace\<close> (the no-break space and the next-line control among them);
  the class \<open>\d\<close> accepts the ten digits, as \<open>[0-9]\<close> does; \<open>[A-Z]\<close> and \<open>[a-z]\<close> are
  the 26 letters; and \<open>str.lower\<close> maps the 26 capital letters and the 30 capital
  letters from \<open>0xC0\<close> to \<open>0xDE\<close> (the multiplication sign \<open>0xD7\<close> is none) to the
  letter 32 code points further on, and leaves every other character as it is.
\<close>

definition whitespace :: string where
  "whitespace = [CHR 0x09, CHR 0x0A, CHR 0x0B, CHR 0x0C, CHR 0x0D,
                 CHR 0x1C, CHR 0x1D, CHR 0x1E, CHR 0x1F, CHR '' '',
                 CHR 0x85, CHR 0xA0]"

definition ascii_uppercase :: string where
  "ascii_uppercase = ''ABCDEFGHIJKLMNOPQRSTUVWXYZ''"

definition ascii_lowercase :: string where
  "ascii_lowercase = ''abcdefghijklmnopqrstuvwxyz''"

definition latin1_uppercase :: string where
  "latin1_uppercase = [CHR 0xC0, CHR 0xC1, CHR 0xC2, CHR 0xC3, CHR 0xC4, CHR 0xC5,
                       CHR 0xC6, CHR 0xC7, CHR 0xC8, CHR 0xC9, CHR 0xCA, CHR 0xCB,
                       CHR 0xCC, CHR 0xCD, CHR 0xCE, CHR 0xCF, CHR 0xD0, CHR 0xD1,
                       CHR 0xD2, CHR 0xD3, CHR 0xD4, CHR 0xD5, CHR 0xD6, CHR 0xD8,
                       CHR 0xD9, CHR 0xDA, CHR 0xDB, CHR 0xDC, CHR 0xDD, CHR 0xDE]"

definition latin1_lowercase :: string where
  "latin1_lowercase = [CHR 0xE0, CHR 0xE1, CHR 0xE2, CHR 0xE3, CHR 0xE4, CHR 0xE5,
                       CHR 0xE6, CHR 0xE7, CHR 0xE8, CHR 0xE9, CHR 0xEA, CHR 0xEB,
                       CHR 0xEC, CHR 0xED, CHR 0xEE, CHR 0xEF, CHR 0xF0, CHR 0xF1,
                       CHR 0xF2, CHR 0xF3, CHR 0xF4, CHR 0xF5, CHR 0xF6, CHR 0xF8,
                       CHR 0xF9, CHR 0xFA, CHR 0xFB, CHR 0xFC, CHR 0xFD, CHR 0xFE]"

definition digits :: string where
  "digits = ''0123456789''"

definition isspace :: "char \<Rightarrow> bool" where
  "isspace c = (c \<in> set whitespace)"

definition lower_char :: "char \<Rightarrow> char" where
  "lower_char c = (case map_of (zip (ascii_uppercase @ latin1_uppercase)
                                    (ascii_lowercase @ latin1_lowercase)) c of
                     Some l \<Rightarrow> l | None \<Rightarrow> c)"

text \<open>\<open>s.strip()\<close>: leading and trailing whitespace removed.\<close>

definition strip :: "string \<Rightarrow> string" where
  "strip s = rev (dropWhile isspace (rev (dropWhile isspace s)))"

text \<open>\<open>s.lower()\<close>.\<close>

definition lower :: "string \<Rightarrow> string" where
  "lower s = map lower_char s"

text \<open>\<open>s.replace(" ", "_")\<close>: every space character becomes an underscore.\<close>

definition replace_space :: "string \<Rightarrow> string" where
  "replace_space s = map (\<lambda>c. if c = CHR '' '' then CHR ''_'' else c) s"

text \<open>\<open>s.startswith(p)\<close>.\<close>

definition startswith :: "string \<Rightarrow> string \<Rightarrow> bool" where
  "startswith s p = (take (length p) s = p)"

text \<open>
  \<open>normalize_name\<close> and \<open>looks_like_viz_chapters_url\<close>, as in the source:
  \<^verbatim>\<open>name.strip().lower().replace(" ", "_")\<close> and
  \<^verbatim>\<open>url.startswith("https://www.viz.com/shonenjump/chapters/")\<close>.
\<close>

definition normalize_name :: "string \<Rightarrow> string" where
  "normalize_name name = replace_space (lower (strip name))"

definition looks_like_viz_chapters_url :: "string \<Rightarrow> bool" where
  "looks_like_viz_chapters_url url = startswith url ''https://www.viz.com/shonenjump/chapters/''"

section \<open>Exceptions\<close>

text \<open>
  The exceptions that the operations of the program can raise, by the library that
  raises them: \<open>json.load\<close>, the file system, the HTTP client, the HTML parser and the
  chat client. An exception carries its message.
\<close>

datatype exn =
    JSONDecodeError
  | OSError string
  | ClientError string
  | ParserRejectedMarkup string
  | DiscordException string

section \<open>The chapter pattern\<close>

text \<open>
  \<open>TOP_CHAPTER_RE\<close> is
  \<^verbatim>\<open>([A-Z][a-z]+ \d{1,2}, \d{4})\s+Ch\.\s*([0-9]+(?:\.[0-9]+)?)\<close>.
  The pattern uses single characters and character classes, greedy bounded or unbounded
  repetitions of a class, concatenation and one greedy optional group. A matcher for
  this fragment returns, for a subject string, the remainders left after every way of
  matching a prefix, in the order in which a backtracking engine tries them (greedy
  first); the head of the list is the match the engine reports.
\<close>

datatype cls = Upper | Lower | Digit | Space | Chr char

fun in_cls :: "cls \<Rightarrow> char \<Rightarrow> bool" where
  "in_cls Upper c = (c \<in> set ascii_uppercase)"
| "in_cls Lower c = (c \<in> set ascii_lowercase)"
| "in_cls Digit c = (c \<in> set digits)"
| "in_cls Space c = isspace c"
| "in_cls (Chr a) c = (c = a)"

datatype re = One cls | Rep cls nat "nat option" | Seq re re | Opt re

text \<open>
  \<open>rep p lo hi s\<close>: greedy repetition of the class \<open>p\<close>, at least \<open>lo\<close> and at most \<open>hi\<close>
  times (\<open>None\<close>: unbounded). The longest run is tried first, then shorter ones.
\<close>

fun rep :: "(char \<Rightarrow> bool) \<Rightarrow> nat \<Rightarrow> nat option \<Rightarrow> string \<Rightarrow> string list" where
  "rep p lo hi [] = (if lo = 0 then [[]] else [])"
| "rep p lo hi (c # cs) =
     (if p c \<and> hi \<noteq> Some 0 then rep p (lo - 1) (map_option (\<lambda>h. h - 1) hi) cs else [])
     @ (if lo = 0 then [c # cs] else [])"

fun rmatch :: "re \<Rightarrow> string \<Rightarrow> string list" where
  "rmatch (One k) [] = []"
| "rmatch (One k) (c # cs) = (if in_cls k c then [cs] else [])"
| "rmatch (Rep k lo hi) s = rep (in_cls k) lo hi s"
| "rmatch (Seq a b) s = concat (map (rmatch b) (rmatch a s))"
| "rmatch (Opt a) s = rmatch a s @ [s]"

text \<open>Group 1: \<^verbatim>\<open>[A-Z][a-z]+ \d{1,2}, \d{4}\<close>.\<close>

definition DATE_RE :: re where
  "DATE_RE =
     Seq (One Upper) (Seq (Rep Lower 1 None) (Seq (One (Chr CHR '' ''))
       (Seq (Rep Digit 1 (Some 2)) (Seq (One (Chr CHR '','')) (Seq (One (Chr CHR '' ''))
         (Rep Digit 4 (Some 4)))))))"

text \<open>Between the groups: \<^verbatim>\<open>\s+Ch\.\s*\<close>.\<close>

definition MARKER_RE :: re where
  "MARKER_RE =
     Seq (Rep Space 1 None) (Seq (One (Chr CHR ''C'')) (Seq (One (Chr CHR ''h''))
       (Seq (One (Chr CHR ''.'')) (Rep Space 0 None))))"

text \<open>Group 2: \<^verbatim>\<open>[0-9]+(?:\.[0-9]+)?\<close>.\<close>

definition CHAPTER_RE :: re where
  "CHAPTER_RE = Seq (Rep Digit 1 None) (Opt (Seq (One (Chr CHR ''.'')) (Rep Digit 1 None)))"

text \<open>
  A match of the whole pattern at the start of \<open>s\<close>, with the text of its two groups.
\<close>

definition TOP_CHAPTER_RE_match :: "string \<Rightarrow> (string \<times> string) option" where
  "TOP_CHAPTER_RE_match s =
     (case concat (map (\<lambda>r1. concat (map (\<lambda>r2. map (\<lambda>r3. (r1, r2, r3)) (rmatch CHAPTER_RE r2))
                                        (rmatch MARKER_RE r1)))
                       (rmatch DATE_RE s)) of
        [] \<Rightarrow> None
      | (r1, r2, r3) # _ \<Rightarrow>
          Some (take (length s - length r1) s, take (length r2 - length r3) r2))"

text \<open>\<open>TOP_CHAPTER_RE.search\<close>: the match at the leftmost position that has one.\<close>

fun TOP_CHAPTER_RE_search :: "string \<Rightarrow> (string \<times> string) option" where
  "TOP_CHAPTER_RE_search [] = TOP_CHAPTER_RE_match []"
| "TOP_CHAPTER_RE_search (c # cs) =
     (case TOP_CHAPTER_RE_match (c # cs) of
        Some g \<Rightarrow> Some g
      | None \<Rightarrow> TOP_CHAPTER_RE_search cs)"

text \<open>
  \<open>parse_latest_chapter\<close>. The rendering of the page to text
  (\<^verbatim>\<open>BeautifulSoup(html, "html.parser").get_text("\n")\<close>) belongs to an external
  library and is a parameter: it returns the text or raises. The search itself does not
  raise. The \<open>strip\<close> of the two groups is kept as it stands in the source.
\<close>

definition parse_latest_chapter ::
  "(string \<Rightarrow> exn + string) \<Rightarrow> string \<Rightarrow> exn + (string \<times> string) option" where
  "parse_latest_chapter get_text html =
     (case get_text html of
        Inl e \<Rightarrow> Inl e
      | Inr text \<Rightarrow>
          (case TOP_CHAPTER_RE_search text of
             None \<Rightarrow> Inr None
           | Some (g1, g2) \<Rightarrow> Inr (Some (strip g1, strip g2))))"

section \<open>The persisted state\<close>

text \<open>
  A Python \<open>dict\<close> with string keys is an association list in insertion order:
  \<open>d[k] = v\<close> replaces the value of an existing key in place and appends a new key,
  \<open>d.pop(k, None)\<close> removes the key, \<open>d.get(k)\<close> looks it up.

  The state is one flat dictionary. Its key \<open>"tracked"\<close> holds the dictionary of
  tracked series (name to URL), and a key \<open>"latest:NAME"\<close> holds the last observed
  value of the series \<open>NAME\<close>, a dictionary with the keys \<open>"date"\<close>, \<open>"ch"\<close>
  and \<open>"url"\<close>. Both kinds of entry are dictionaries from strings to strings.
\<close>

type_synonym 'v dict = "(string \<times> 'v) list"

type_synonym state = "(string dict) dict"

definition dict_get :: "'v dict \<Rightarrow> string \<Rightarrow> 'v option" where
  "dict_get d k = map_of d k"

definition dict_set :: "'v dict \<Rightarrow> string \<Rightarrow> 'v \<Rightarrow> 'v dict" where
  "dict_set d k v = AList.update k v d"

definition dict_pop :: "'v dict \<Rightarrow> string \<Rightarrow> 'v dict" where
  "dict_pop d k = AList.delete k d"

definition dict_keys :: "'v dict \<Rightarrow> string list" where
  "dict_keys d = map fst d"

definition dict_in :: "string \<Rightarrow> 'v dict \<Rightarrow> bool" where
  "dict_in k d = (k \<in> set (dict_keys d))"

text \<open>
  The state file, as \<open>load_state\<close> sees it: absent, present with contents that
  \<open>json.load\<close> rejects (an empty or truncated file among them), or present and
  holding the serialisation of a state. A file that parses to a value of another shape
  than a dictionary of dictionaries of strings, and a file that exists and cannot be
  read, are not covered.
\<close>

datatype store = Absent | Unparseable | Json state

fun load_state :: "store \<Rightarrow> exn + state" where
  "load_state Absent = Inr []"
| "load_state Unparseable = Inl JSONDecodeError"
| "load_state (Json state) = Inr state"

text \<open>
  \<open>save_state\<close> is
  \<^verbatim>\<open>with open(STATE_FILE, "w", encoding="utf-8") as f: json.dump(state, f, ...)\<close>:
  it opens the state file for writing, which truncates it, and then dumps the state
  into it. How far a call gets is decided by the environment: it completes, or
  \<open>open\<close> raises and the file is untouched, or the dump is interrupted after the file
  was truncated. What an interrupted dump leaves is empty or a proper prefix of the
  serialisation of a dictionary, which \<open>json.load\<close> rejects.
\<close>

datatype save_outcome = Completed | OpenFailed exn | DumpFailed exn

fun save_state :: "save_outcome \<Rightarrow> state \<Rightarrow> store \<Rightarrow> exn option \<times> store" where
  "save_state Completed state file = (None, Json state)"
| "save_state (OpenFailed e) state file = (Some e, file)"
| "save_state (DumpFailed e) state file = (Some e, Unparseable)"

definition get_tracked :: "state \<Rightarrow> string dict" where
  "get_tracked state = (case dict_get state ''tracked'' of Some t \<Rightarrow> t | None \<Rightarrow> [])"

definition set_tracked :: "state \<Rightarrow> string dict \<Rightarrow> state" where
  "set_tracked state tracked = dict_set state ''tracked'' tracked"

text \<open>The key \<^verbatim>\<open>f"latest:{name}"\<close> and the value stored under it.\<close>

definition state_key_of :: "string \<Rightarrow> string" where
  "state_key_of name = ''latest:'' @ name"

definition observed :: "string \<Rightarrow> string \<Rightarrow> string \<Rightarrow> string dict" where
  "observed latest_date latest_ch url = [(''date'', latest_date), (''ch'', latest_ch), (''url'', url)]"

section \<open>The environment and the observable effects\<close>

text \<open>
  What the program does not decide is a parameter: the result of fetching a page, the
  result of rendering a page to text, whether the notification channel is found,
  whether a message to the channel is delivered, and how far a save gets. The first argument of
  a result is the index of the loop iteration that asks (0 for a command), so that
  two requests of one sweep may be answered differently.

  Every effect is recorded in a trace. Log lines, replies and the notification are
  recorded by their kind and the values they carry; their wording is not modelled.
\<close>

record env =
  fetch_html :: "nat \<Rightarrow> string \<Rightarrow> exn + string"
  get_text :: "string \<Rightarrow> exn + string"
  get_channel :: bool
  channel_send :: "nat \<Rightarrow> exn option"
  write_outcome :: "nat \<Rightarrow> save_outcome"

datatype log =
    NoTracked
  | NoChannel
  | Warn string
  | Init string string string
  | Notified string string string
  | Ok string string
  | Error string exn

datatype reply =
    BadUrl
  | Deferred
  | NoChapter
  | CouldntFetch exn
  | Tracking string string string
  | NotTracking string
  | Untracked string
  | NoSeries
  | Listing "(string \<times> string option \<times> string option \<times> string) list"

datatype event =
    Fetch string
  | Send string string string string
  | Save state
  | Print log
  | Reply reply

section \<open>The poll cycle\<close>

text \<open>
  One iteration of the loop of \<open>poll_updates\<close>, for the item \<open>(name, url)\<close>, on the
  state in memory, the state file and the trace so far. The whole body is inside
  \<^verbatim>\<open>try: ... except Exception as e: print(f"[ERROR] {name}: {e}")\<close>.
\<close>

definition poll_item ::
  "env \<Rightarrow> nat \<Rightarrow> string \<times> string \<Rightarrow> state \<times> store \<times> event list \<Rightarrow> state \<times> store \<times> event list" where
  "poll_item env i item w =
     (case (item, w) of ((name, url), (state, file, tr)) \<Rightarrow>
        (case fetch_html env i url of
           Inl e \<Rightarrow> (state, file, tr @ [Fetch url, Print (Error name e)])
         | Inr html \<Rightarrow>
            (case parse_latest_chapter (get_text env) html of
               Inl e \<Rightarrow> (state, file, tr @ [Fetch url, Print (Error name e)])
             | Inr None \<Rightarrow> (state, file, tr @ [Fetch url, Print (Warn name)])
             | Inr (Some (latest_date, latest_ch)) \<Rightarrow>
                (let state_key = state_key_of name in
                 if \<not> dict_in state_key state then
                   (let state' = dict_set state state_key (observed latest_date latest_ch url) in
                    case save_state (write_outcome env i) state' file of
                      (Some e, file') \<Rightarrow>
                        (state', file', tr @ [Fetch url, Save state', Print (Error name e)])
                    | (None, file') \<Rightarrow>
                        (state', file',
                         tr @ [Fetch url, Save state', Print (Init name latest_ch latest_date)]))
                 else
                   (let prev = (case dict_get state state_key of Some p \<Rightarrow> p | None \<Rightarrow> []) in
                    if dict_get prev ''ch'' \<noteq> Some latest_ch
                       \<or> dict_get prev ''date'' \<noteq> Some latest_date then
                      (case channel_send env i of
                         Some e \<Rightarrow>
                           (state, file,
                            tr @ [Fetch url, Send name latest_ch latest_date url,
                                  Print (Error name e)])
                       | None \<Rightarrow>
                           (let state' = dict_set state state_key
                                           (observed latest_date latest_ch url) in
                            case save_state (write_outcome env i) state' file of
                              (Some e, file') \<Rightarrow>
                                (state', file',
                                 tr @ [Fetch url, Send name latest_ch latest_date url,
                                       Save state', Print (Error name e)])
                            | (None, file') \<Rightarrow>
                                (state', file',
                                 tr @ [Fetch url, Send name latest_ch latest_date url,
                                       Save state',
                                       Print (Notified name latest_ch latest_date)])))
                    else (state, file, tr @ [Fetch url, Print (Ok name latest_ch)]))))))"

text \<open>The loop \<^verbatim>\<open>for name, url in tracked.items()\<close>, in insertion order.\<close>

fun poll_loop ::
  "env \<Rightarrow> nat \<Rightarrow> string dict \<Rightarrow> state \<times> store \<times> event list \<Rightarrow> state \<times> store \<times> event list" where
  "poll_loop env i [] w = w"
| "poll_loop env i (item # items) w = poll_loop env (Suc i) items (poll_item env i item w)"

text \<open>
  \<open>poll_updates\<close>: the exception that escapes (from \<open>load_state\<close>, which is outside
  the loop's \<open>try\<close>), the state file afterwards, and the trace.
\<close>

definition poll_updates :: "env \<Rightarrow> store \<Rightarrow> exn option \<times> store \<times> event list" where
  "poll_updates env file =
     (case load_state file of
        Inl e \<Rightarrow> (Some e, file, [])
      | Inr state \<Rightarrow>
         (let tracked = get_tracked state in
          if tracked = [] then (None, file, [Print NoTracked])
          else if \<not> get_channel env then (None, file, [Print NoChannel])
          else (case poll_loop env 0 tracked (state, file, []) of
                  (state', file', tr) \<Rightarrow> (None, file', tr))))"

section \<open>The commands\<close>

text \<open>
  \<open>track\<close>: the fetch and the extraction are inside
  \<^verbatim>\<open>try: ... except Exception as e\<close>, whose handler replies that the URL could not
  be fetched; \<open>load_state\<close> and \<open>save_state\<close> come after it and are not guarded.
\<close>

definition track :: "env \<Rightarrow> string \<Rightarrow> string \<Rightarrow> store \<Rightarrow> exn option \<times> store \<times> event list" where
  "track env name url file =
     (let name_norm = normalize_name name in
      if \<not> looks_like_viz_chapters_url url then (None, file, [Reply BadUrl])
      else
        (case fetch_html env 0 url of
           Inl e \<Rightarrow> (None, file, [Reply Deferred, Fetch url, Reply (CouldntFetch e)])
         | Inr html \<Rightarrow>
            (case parse_latest_chapter (get_text env) html of
               Inl e \<Rightarrow> (None, file, [Reply Deferred, Fetch url, Reply (CouldntFetch e)])
             | Inr None \<Rightarrow> (None, file, [Reply Deferred, Fetch url, Reply NoChapter])
             | Inr (Some (latest_date, latest_ch)) \<Rightarrow>
                (case load_state file of
                   Inl e \<Rightarrow> (Some e, file, [Reply Deferred, Fetch url])
                 | Inr state \<Rightarrow>
                    (let tracked = dict_set (get_tracked state) name_norm url;
                         state1 = set_tracked state tracked;
                         state2 = dict_set state1 (state_key_of name_norm)
                                    (observed latest_date latest_ch url)
                     in case save_state (write_outcome env 0) state2 file of
                          (Some e, file') \<Rightarrow>
                            (Some e, file', [Reply Deferred, Fetch url, Save state2])
                        | (None, file') \<Rightarrow>
                            (None, file',
                             [Reply Deferred, Fetch url, Save state2,
                              Reply (Tracking name_norm latest_ch latest_date)]))))))"

definition untrack :: "env \<Rightarrow> string \<Rightarrow> store \<Rightarrow> exn option \<times> store \<times> event list" where
  "untrack env name file =
     (let name_norm = normalize_name name in
      case load_state file of
        Inl e \<Rightarrow> (Some e, file, [])
      | Inr state \<Rightarrow>
         (let tracked = get_tracked state in
          if \<not> dict_in name_norm tracked then (None, file, [Reply (NotTracking name_norm)])
          else
            (let tracked' = dict_pop tracked name_norm;
                 state1 = set_tracked state tracked';
                 state2 = dict_pop state1 (state_key_of name_norm)
             in case save_state (write_outcome env 0) state2 file of
                  (Some e, file') \<Rightarrow> (Some e, file', [Save state2])
                | (None, file') \<Rightarrow> (None, file', [Save state2, Reply (Untracked name_norm)]))))"

definition list_tracked :: "store \<Rightarrow> exn option \<times> store \<times> event list" where
  "list_tracked file =
     (case load_state file of
        Inl e \<Rightarrow> (Some e, file, [])
      | Inr state \<Rightarrow>
         (let tracked = get_tracked state in
          if tracked = [] then (None, file, [Reply NoSeries])
          else
            (None, file,
             [Reply (Listing (map (\<lambda>(name, url).
                 (let latest = (case dict_get state (state_key_of name) of
                                  Some l \<Rightarrow> l | None \<Rightarrow> [])
                  in (name, dict_get latest ''ch'', dict_get latest ''date'', url))) tracked))])))"

section \<open>Notions used to state the properties\<close>

text \<open>Projections of a trace: the URLs fetched, the states saved, the notifications sent.\<close>

fun fetched :: "event list \<Rightarrow> string list" where
  "fetched [] = []"
| "fetched (Fetch url # evs) = url # fetched evs"
| "fetched (_ # evs) = fetched evs"

fun saves :: "event list \<Rightarrow> state list" where
  "saves [] = []"
| "saves (Save s # evs) = s # saves evs"
| "saves (_ # evs) = saves evs"

fun sends :: "event list \<Rightarrow> (string \<times> string \<times> string \<times> string) list" where
  "sends [] = []"
| "sends (Send name ch date' url # evs) = (name, ch, date', url) # sends evs"
| "sends (_ # evs) = sends evs"

text \<open>
  The lines logged, in order, and the item a line of the poll cycle is about.
\<close>

fun printed :: "event list \<Rightarrow> log list" where
  "printed [] = []"
| "printed (Print l # evs) = l # printed evs"
| "printed (_ # evs) = printed evs"

fun log_name :: "log \<Rightarrow> string option" where
  "log_name (Warn name) = Some name"
| "log_name (Init name ch date') = Some name"
| "log_name (Notified name ch date') = Some name"
| "log_name (Ok name ch) = Some name"
| "log_name (Error name e) = Some name"
| "log_name NoTracked = None"
| "log_name NoChannel = None"

text \<open>
  The Reconciler of the specification, in the specification's words: with no stored
  value the outcome is Initialize and the new value is the fresh one; with a stored
  value whose date and chapter label equal the fresh ones the outcome is Unchanged
  and the value stays; otherwise the outcome is Changed and the new value is the
  fresh one, URL included.
\<close>

datatype outcome = Initialize | Unchanged | Changed

definition reconcile_spec ::
  "string dict option \<Rightarrow> string \<times> string \<Rightarrow> string \<Rightarrow> outcome \<times> string dict option" where
  "reconcile_spec stored fresh url =
     (case stored of
        None \<Rightarrow> (Initialize, Some (observed (fst fresh) (snd fresh) url))
      | Some v \<Rightarrow>
          if (dict_get v ''date'', dict_get v ''ch'') = (Some (fst fresh), Some (snd fresh))
          then (Unchanged, stored)
          else (Changed, Some (observed (fst fresh) (snd fresh) url)))"

text \<open>
  The invariant of the state: every key of the state other than \<open>"tracked"\<close> is the
  key \<open>"latest:NAME"\<close> of a tracked name.
\<close>

definition observed_tracked :: "state \<Rightarrow> bool" where
  "observed_tracked s =
     list_all (\<lambda>k. k = ''tracked'' \<or> k \<in> set (map state_key_of (dict_keys (get_tracked s))))
       (dict_keys s)"

text \<open>
  The state files reachable from no file or an empty state by the commands and the poll
  cycle, run one after the other in any environment.
\<close>

inductive reachable :: "store \<Rightarrow> bool" where
  absent: "reachable Absent"
| empty: "reachable (Json [])"
| track: "reachable file \<Longrightarrow> track env name url file = (r, file', tr) \<Longrightarrow> reachable file'"
| untrack: "reachable file \<Longrightarrow> untrack env name file = (r, file', tr) \<Longrightarrow> reachable file'"
| poll: "reachable file \<Longrightarrow> poll_updates env file = (r, file', tr) \<Longrightarrow> reachable file'"

text \<open>
  The strings a pattern of the fragment matches, read off the pattern: a class matches
  one character of the class, a repetition a run of characters of the class within its
  bounds, a concatenation a string of the first followed by a string of the second, an
  optional group the empty string or a string of the group.
\<close>

primrec lang :: "re \<Rightarrow> string set" where
  "lang (One k) = {[c] | c. in_cls k c}"
| "lang (Rep k lo hi) =
     {w. list_all (in_cls k) w \<and> lo \<le> length w \<and> (\<forall>h. hi = Some h \<longrightarrow> length w \<le> h)}"
| "lang (Seq a b) = {u @ v | u v. u \<in> lang a \<and> v \<in> lang b}"
| "lang (Opt a) = insert [] (lang a)"




section \<open>Concrete inputs\<close>

text \<open>
  Environments, pages and states used to run the model on concrete inputs. In
  \<open>env_ok\<close> every fetch returns the given page, which contains no markup and is its own
  rendering, the channel is found, and every send and save succeeds.
\<close>

definition env_ok :: "string \<Rightarrow> env" where
  "env_ok page = \<lparr> fetch_html = (\<lambda>i u. Inr page), get_text = (\<lambda>h. Inr h), get_channel = True,
                   channel_send = (\<lambda>i. None), write_outcome = (\<lambda>i. Completed) \<rparr>"

definition url_op :: string where
  "url_op = ''https://www.viz.com/shonenjump/chapters/one-piece''"


definition page_1171 :: string where
  "page_1171 = ''Latest: January 18, 2026 Ch. 1171 FREE''"

definition page_1172 :: string where
  "page_1172 = ''Latest: January 25, 2026 Ch. 1172 FREE''"

definition state_1171 :: state where
  "state_1171 =
     [(''tracked'', [(''one_piece'', url_op)]),
      (''latest:one_piece'',
         [(''date'', ''January 18, 2026''), (''ch'', ''1171''), (''url'', url_op)])]"


text \<open>
  Environments in which something fails: every fetch, every send to the channel, every
  dump into the state file, every rendering of a page; one in which only the fetch
  of the first iteration fails, and one in which only the page of the first iteration
  cannot be rendered.
\<close>

definition env_down :: env where
  "env_down = (env_ok page_1171)\<lparr> fetch_html := (\<lambda>i u. Inl (ClientError ''503'')) \<rparr>"

definition env_send_fails :: "string \<Rightarrow> env" where
  "env_send_fails page = (env_ok page)\<lparr> channel_send := (\<lambda>i. Some (DiscordException ''403'')) \<rparr>"

definition env_dump_fails :: "string \<Rightarrow> env" where
  "env_dump_fails page = (env_ok page)\<lparr> write_outcome := (\<lambda>i. DumpFailed (OSError ''ENOSPC'')) \<rparr>"

definition env_render_fails :: "string \<Rightarrow> env" where
  "env_render_fails page =
     (env_ok page)\<lparr> get_text := (\<lambda>h. Inl (ParserRejectedMarkup ''markup'')) \<rparr>"

definition env_first_down :: "string \<Rightarrow> env" where
  "env_first_down page =
     (env_ok page)\<lparr> fetch_html := (\<lambda>i u. if i = 0 then Inl (ClientError ''503'') else Inr page) \<rparr>"

definition env_first_unrenderable :: "string \<Rightarrow> env" where
  "env_first_unrenderable page =
     (env_ok page)\<lparr> fetch_html := (\<lambda>i u. if i = 0 then Inr ''<'' else Inr page),
                      get_text := (\<lambda>h. if h = ''<'' then Inl (ParserRejectedMarkup ''markup'')
                                        else Inr h) \<rparr>"

definition page_none :: string where
  "page_none = ''Coming soon''"

definition url_other :: string where
  "url_other = ''https://example.com/one-piece''"

definition url_naruto :: string where
  "url_naruto = ''https://www.viz.com/shonenjump/chapters/naruto''"

definition state_1172 :: state where
  "state_1172 =
     [(''tracked'', [(''one_piece'', url_op)]),
      (''latest:one_piece'',
         [(''date'', ''January 25, 2026''), (''ch'', ''1172''), (''url'', url_op)])]"

definition state_two :: state where
  "state_two =
     [(''tracked'', [(''one_piece'', url_op), (''naruto'', url_naruto)]),
      (''latest:one_piece'',
         [(''date'', ''January 18, 2026''), (''ch'', ''1171''), (''url'', url_op)]),
      (''latest:naruto'',
         [(''date'', ''January 18, 2026''), (''ch'', ''1171''), (''url'', url_naruto)])]"

definition state_two' :: state where
  "state_two' =
     [(''tracked'', [(''one_piece'', url_op), (''naruto'', url_naruto)]),
      (''latest:one_piece'',
         [(''date'', ''January 18, 2026''), (''ch'', ''1171''), (''url'', url_op)]),
      (''latest:naruto'',
         [(''date'', ''January 25, 2026''), (''ch'', ''1172''), (''url'', url_naruto)])]"

definition state_tracked_only :: state where
  "state_tracked_only = [(''tracked'', [(''one_piece'', url_op)])]"

definition state_untracked :: state where
  "state_untracked = [(''tracked'', [])]"

section \<open>Lemmas on strings and dictionaries\<close>

















lemma dict_get_set: "dict_get (dict_set d k v) k' = (if k' = k then Some v else dict_get d k')"
  by (simp add: dict_get_def dict_set_def update_conv')

lemma dict_in_get: "dict_in k d \<longleftrightarrow> dict_get d k \<noteq> None"
  by (simp add: dict_in_def dict_keys_def dict_get_def map_of_eq_None_iff)

lemma state_key_neq_tracked: "state_key_of n \<noteq> ''tracked''"
  by (simp add: state_key_of_def)

lemma get_tracked_set_tracked: "get_tracked (set_tracked s t) = t"
  by (simp add: get_tracked_def set_tracked_def dict_get_set)

lemma get_tracked_set_latest: "get_tracked (dict_set s (state_key_of n) v) = get_tracked s"
  using state_key_neq_tracked[of n] by (auto simp add: get_tracked_def dict_get_set)



section \<open>Lemmas on traces\<close>

lemma fetched_append: "fetched (xs @ ys) = fetched xs @ fetched ys"
  by (induction xs rule: fetched.induct) simp_all

lemma saves_append: "saves (xs @ ys) = saves xs @ saves ys"
  by (induction xs rule: saves.induct) simp_all

lemma sends_append: "sends (xs @ ys) = sends xs @ sends ys"
  by (induction xs rule: sends.induct) simp_all

lemma printed_append: "printed (xs @ ys) = printed xs @ printed ys"
  by (induction xs rule: printed.induct) simp_all

section \<open>Runs on the concrete inputs\<close>

lemma parse_page_1171:
  "parse_latest_chapter (get_text (env_ok page_1171)) page_1171 = Inr (Some (''January 18, 2026'', ''1171''))"
  by code_simp

lemma parse_page_1172:
  "parse_latest_chapter (get_text (env_ok page_1172)) page_1172 = Inr (Some (''January 25, 2026'', ''1172''))"
  by code_simp

lemma looks_like_url_op: "looks_like_viz_chapters_url url_op"
  by code_simp

lemma fetch_env_ok: "fetch_html (env_ok page) i url = Inr page"
  by (simp add: env_ok_def)

lemma parse_env_ok_1171:
  "parse_latest_chapter (get_text (env_ok p)) page_1171 = Inr (Some (''January 18, 2026'', ''1171''))"
  using parse_page_1171 by (simp add: env_ok_def)

lemma parse_env_ok_1172:
  "parse_latest_chapter (get_text (env_ok p)) page_1172 = Inr (Some (''January 25, 2026'', ''1172''))"
  using parse_page_1172 by (simp add: env_ok_def)

lemma set_changed_run:
  "dict_set state_1171 (state_key_of ''one_piece'')
     (observed ''January 25, 2026'' ''1172'' url_op) = state_1172"
  by code_simp

lemma fetch_env_send_fails: "fetch_html (env_send_fails page) i url = Inr page"
  by (simp add: env_send_fails_def env_ok_def)

lemma parse_env_send_fails_1172:
  "parse_latest_chapter (get_text (env_send_fails p)) page_1172
     = Inr (Some (''January 25, 2026'', ''1172''))"
  using parse_page_1172 by (simp add: env_send_fails_def env_ok_def)

lemma fetch_env_dump_fails: "fetch_html (env_dump_fails page) i url = Inr page"
  by (simp add: env_dump_fails_def env_ok_def)

lemma parse_env_dump_fails_1171:
  "parse_latest_chapter (get_text (env_dump_fails p)) page_1171
     = Inr (Some (''January 18, 2026'', ''1171''))"
  using parse_page_1171 by (simp add: env_dump_fails_def env_ok_def)

section \<open>Name normalisation (C8)\<close>






section \<open>Untrack of a name that is not tracked (C10)\<close>

text \<open>
  C10. When the state loads and the normalised name is not a key of the tracked
  dictionary, \<open>untrack\<close> only replies that the name is not tracked: no exception, no
  save, and the state file is what it was.
\<close>

theorem untrack_not_tracked_no_write:
  assumes "load_state disk = Inr state"
      and "\<not> dict_in (normalize_name name) (get_tracked state)"
  shows "untrack env name disk = (None, disk, [Reply (NotTracking (normalize_name name))])
       \<and> saves (snd (snd (untrack env name disk))) = []"
  using assms by (simp add: untrack_def)

theorem untrack_not_tracked_no_write_witness:
  "untrack (env_ok page_1171) ''Naruto'' (Json state_1171)
     = (None, Json state_1171, [Reply (NotTracking ''naruto'')])
   \<and> saves (snd (snd (untrack (env_ok page_1171) ''Naruto'' (Json state_1171)))) = []"
proof -
  have 1: "load_state (Json state_1171) = Inr state_1171" by simp
  have 2: "\<not> dict_in (normalize_name ''Naruto'') (get_tracked state_1171)" by code_simp
  have 3: "normalize_name ''Naruto'' = ''naruto''" by code_simp
  show ?thesis
    using untrack_not_tracked_no_write[OF 1 2, of "env_ok page_1171"] unfolding 3 .
qed

section \<open>Loading an absent or a corrupt state file (C9)\<close>

text \<open>
  C9. With no state file \<open>load_state\<close> yields the empty state. With a file that does not
  parse it raises, and so does the operation around it: the poll cycle, \<open>untrack\<close> and
  the listing raise at once, \<open>track\<close> raises when it reaches the load (after the URL check,
  the fetch and the extraction succeeded); none of them saves, and the file stays as it
  was.
\<close>

theorem load_state_absent_or_corrupt:
  "load_state Absent = Inr []
   \<and> load_state Unparseable = Inl JSONDecodeError
   \<and> poll_updates env Unparseable = (Some JSONDecodeError, Unparseable, [])
   \<and> untrack env name Unparseable = (Some JSONDecodeError, Unparseable, [])
   \<and> list_tracked Unparseable = (Some JSONDecodeError, Unparseable, [])
   \<and> fst (snd (track env name url Unparseable)) = Unparseable
   \<and> saves (snd (snd (track env name url Unparseable))) = []
   \<and> (looks_like_viz_chapters_url url \<and> fetch_html env 0 url = Inr html
        \<and> parse_latest_chapter (get_text env) html = Inr (Some (d, c))
      \<longrightarrow> track env name url Unparseable
            = (Some JSONDecodeError, Unparseable, [Reply Deferred, Fetch url]))"
  by (simp add: poll_updates_def untrack_def list_tracked_def track_def Let_def
        split: sum.splits option.splits prod.splits)

theorem load_state_absent_or_corrupt_witness:
  "load_state Absent = Inr []
   \<and> poll_updates (env_ok page_1171) Unparseable = (Some JSONDecodeError, Unparseable, [])
   \<and> untrack (env_ok page_1171) ''One Piece'' Unparseable = (Some JSONDecodeError, Unparseable, [])
   \<and> track (env_ok page_1171) ''One Piece'' url_op Unparseable
       = (Some JSONDecodeError, Unparseable, [Reply Deferred, Fetch url_op])"
proof -
  have f: "fetch_html (env_ok page_1171) 0 url_op = Inr page_1171" by (simp add: env_ok_def)
  show ?thesis
    using load_state_absent_or_corrupt[of "env_ok page_1171" "''One Piece''" url_op page_1171
            "''January 18, 2026''" "''1171''"]
          looks_like_url_op f parse_page_1171
    by blast
qed

section \<open>Track fails without a trace in the state (C5)\<close>

text \<open>
  C5. A URL that fails the shape check is refused before any fetch, and the state file
  is unchanged. When the fetch fails, or succeeds and no chapter is found in the page
  or the extraction raises, \<open>track\<close> replies with the failure and the state file is
  unchanged: neither the tracked entry nor a baseline is written. And whenever \<open>track\<close> does save, the one state it
  saves holds both the tracked entry and the baseline of the normalised name.
\<close>

theorem track_all_or_nothing:
  "(\<not> looks_like_viz_chapters_url url
      \<longrightarrow> track env name url disk = (None, disk, [Reply BadUrl]))
   \<and> (looks_like_viz_chapters_url url \<and> fetch_html env 0 url = Inl e
      \<longrightarrow> track env name url disk
            = (None, disk, [Reply Deferred, Fetch url, Reply (CouldntFetch e)]))
   \<and> (looks_like_viz_chapters_url url \<and> fetch_html env 0 url = Inr html
        \<and> parse_latest_chapter (get_text env) html = Inr None
      \<longrightarrow> track env name url disk = (None, disk, [Reply Deferred, Fetch url, Reply NoChapter]))
   \<and> (looks_like_viz_chapters_url url \<and> fetch_html env 0 url = Inr html
        \<and> parse_latest_chapter (get_text env) html = Inl e
      \<longrightarrow> track env name url disk
            = (None, disk, [Reply Deferred, Fetch url, Reply (CouldntFetch e)]))
   \<and> (\<forall>s. s \<in> set (saves (snd (snd (track env name url disk))))
      \<longrightarrow> saves (snd (snd (track env name url disk))) = [s]
          \<and> dict_get (get_tracked s) (normalize_name name) = Some url
          \<and> (\<exists>d c. dict_get s (state_key_of (normalize_name name)) = Some (observed d c url)))"
proof -
  have "saves (snd (snd (track env name url disk))) = [s]
          \<and> dict_get (get_tracked s) (normalize_name name) = Some url
          \<and> (\<exists>d c. dict_get s (state_key_of (normalize_name name)) = Some (observed d c url))"
    if "s \<in> set (saves (snd (snd (track env name url disk))))" for s
    using that
    by (auto simp: track_def Let_def dict_get_set get_tracked_set_latest get_tracked_set_tracked
          split: if_splits sum.splits option.splits prod.splits)
  then show ?thesis
    by (simp add: track_def)
qed

lemma track_bad_url_run:
  "\<not> looks_like_viz_chapters_url url_other"
  by code_simp

lemma track_no_chapter_run:
  "parse_latest_chapter (get_text (env_ok page_none)) page_none = Inr None"
  by code_simp

lemma track_one_piece_saves:
  "saves (snd (snd (track (env_ok page_1171) ''One Piece'' url_op Absent))) = [state_1171]"
  by code_simp

theorem track_all_or_nothing_witness:
  "track (env_ok page_1171) ''One Piece'' url_other (Json state_1171)
     = (None, Json state_1171, [Reply BadUrl])
   \<and> track env_down ''One Piece'' url_op (Json state_1171)
     = (None, Json state_1171, [Reply Deferred, Fetch url_op, Reply (CouldntFetch (ClientError ''503''))])
   \<and> track (env_ok page_none) ''One Piece'' url_op (Json state_1171)
     = (None, Json state_1171, [Reply Deferred, Fetch url_op, Reply NoChapter])
   \<and> track (env_render_fails page_1171) ''One Piece'' url_op (Json state_1171)
     = (None, Json state_1171,
        [Reply Deferred, Fetch url_op, Reply (CouldntFetch (ParserRejectedMarkup ''markup''))])
   \<and> dict_get (get_tracked state_1171) (normalize_name ''One Piece'') = Some url_op
   \<and> (\<exists>d c. dict_get state_1171 (state_key_of (normalize_name ''One Piece''))
               = Some (observed d c url_op))"
proof -
  have 1: "track (env_ok page_1171) ''One Piece'' url_other (Json state_1171)
     = (None, Json state_1171, [Reply BadUrl])"
    using track_all_or_nothing[of url_other "env_ok page_1171" "''One Piece''" "Json state_1171"]
          track_bad_url_run by blast
  have f2: "fetch_html env_down 0 url_op = Inl (ClientError ''503'')"
    by (simp add: env_down_def env_ok_def)
  have 2: "track env_down ''One Piece'' url_op (Json state_1171)
     = (None, Json state_1171, [Reply Deferred, Fetch url_op, Reply (CouldntFetch (ClientError ''503''))])"
    using track_all_or_nothing[of url_op env_down "''One Piece''" "Json state_1171" "ClientError ''503''"]
          looks_like_url_op f2 by blast
  have f3: "fetch_html (env_ok page_none) 0 url_op = Inr page_none"
    by (simp add: env_ok_def)
  have 3: "track (env_ok page_none) ''One Piece'' url_op (Json state_1171)
     = (None, Json state_1171, [Reply Deferred, Fetch url_op, Reply NoChapter])"
    using track_all_or_nothing[of url_op "env_ok page_none" "''One Piece''" "Json state_1171" _ page_none]
          looks_like_url_op f3 track_no_chapter_run by blast
  have f5: "fetch_html (env_render_fails page_1171) 0 url_op = Inr page_1171"
    by (simp add: env_render_fails_def env_ok_def)
  have p5: "parse_latest_chapter (get_text (env_render_fails page_1171)) page_1171
              = Inl (ParserRejectedMarkup ''markup'')"
    by (simp add: env_render_fails_def env_ok_def parse_latest_chapter_def)
  have 5: "track (env_render_fails page_1171) ''One Piece'' url_op (Json state_1171)
     = (None, Json state_1171,
        [Reply Deferred, Fetch url_op, Reply (CouldntFetch (ParserRejectedMarkup ''markup''))])"
    using track_all_or_nothing[where url = url_op and env = "env_render_fails page_1171"
            and name = "''One Piece''" and disk = "Json state_1171" and html = page_1171
            and e = "ParserRejectedMarkup ''markup''"]
          looks_like_url_op f5 p5 by blast
  have "state_1171 \<in> set (saves (snd (snd (track (env_ok page_1171) ''One Piece'' url_op Absent))))"
    by (simp add: track_one_piece_saves)
  then have 4: "dict_get (get_tracked state_1171) (normalize_name ''One Piece'') = Some url_op
   \<and> (\<exists>d c. dict_get state_1171 (state_key_of (normalize_name ''One Piece''))
               = Some (observed d c url_op))"
    using track_all_or_nothing[of url_op "env_ok page_1171" "''One Piece''" Absent] by blast
  show ?thesis using 1 2 3 4 5 by blast
qed

section \<open>The decision of the poll cycle (C2)\<close>

text \<open>
  C2, as the code has it. For an item whose page was fetched and parsed, the iteration
  of the poll cycle decides as the Reconciler of the specification does on the stored
  value of the item, and what it does next is fixed by the environment.
  On Initialize the fresh value is set as the stored value in memory and one save of
  that state is attempted; nothing is sent, whether the save completes or raises, and
  the line logged is the baseline or the error of the save.
  On Unchanged the state and the file are left alone and nothing is sent.
  On Changed the notification is sent first. When the send returns, the stored value is
  replaced by the fresh value, URL included, and one save of that state is attempted.
  When the send raises, the error is logged and the state and the file are left as they
  were: the stored value is not replaced.
  A save that is attempted writes the file as \<open>save_state\<close> does: the new state when it
  completes.
\<close>

theorem poll_item_refines_reconcile:
  assumes "fetch_html env i url = Inr html"
      and "parse_latest_chapter (get_text env) html = Inr (Some (d, c))"
  shows "case reconcile_spec (dict_get state (state_key_of name)) (d, c) url of
           (Initialize, new) \<Rightarrow>
             dict_get state (state_key_of name) = None
             \<and> new = Some (observed d c url)
             \<and> (let state' = dict_set state (state_key_of name) (observed d c url);
                     saved = save_state (write_outcome env i) state' disk
                 in dict_get state' (state_key_of name) = new
                    \<and> poll_item env i (name, url) (state, disk, tr)
                      = (state', snd saved,
                         tr @ [Fetch url, Save state',
                               Print (case fst saved of None \<Rightarrow> Init name c d
                                                      | Some e \<Rightarrow> Error name e)])
                    \<and> sends (snd (snd (poll_item env i (name, url) (state, disk, tr))))
                      = sends tr
                    \<and> (write_outcome env i = Completed \<longrightarrow>
                         poll_item env i (name, url) (state, disk, tr)
                         = (state', Json state',
                            tr @ [Fetch url, Save state', Print (Init name c d)])))
         | (Unchanged, new) \<Rightarrow>
             new = dict_get state (state_key_of name)
             \<and> poll_item env i (name, url) (state, disk, tr)
               = (state, disk, tr @ [Fetch url, Print (Ok name c)])
         | (Changed, new) \<Rightarrow>
             new = Some (observed d c url)
             \<and> (let state' = dict_set state (state_key_of name) (observed d c url);
                     saved = save_state (write_outcome env i) state' disk
                 in dict_get state' (state_key_of name) = new
                    \<and> (case channel_send env i of
                          None \<Rightarrow>
                            poll_item env i (name, url) (state, disk, tr)
                            = (state', snd saved,
                               tr @ [Fetch url, Send name c d url, Save state',
                                     Print (case fst saved of None \<Rightarrow> Notified name c d
                                                            | Some e \<Rightarrow> Error name e)])
                        | Some e \<Rightarrow>
                            poll_item env i (name, url) (state, disk, tr)
                            = (state, disk,
                               tr @ [Fetch url, Send name c d url, Print (Error name e)]))
                    \<and> (channel_send env i = None \<and> write_outcome env i = Completed \<longrightarrow>
                         poll_item env i (name, url) (state, disk, tr)
                         = (state', Json state',
                            tr @ [Fetch url, Send name c d url, Save state',
                                  Print (Notified name c d)])))"
proof (cases "dict_get state (state_key_of name)")
  case None
  then have "\<not> dict_in (state_key_of name) state" by (simp add: dict_in_get)
  with None assms show ?thesis
    by (simp add: reconcile_spec_def poll_item_def dict_get_set Let_def sends_append
          split: prod.splits option.splits)
next
  case (Some prev)
  then have "dict_in (state_key_of name) state" by (simp add: dict_in_get)
  with Some assms show ?thesis
    by (auto simp: reconcile_spec_def poll_item_def dict_get_set Let_def
          split: prod.splits option.splits)
qed

lemma reconcile_initialize_run:
  "reconcile_spec (dict_get state_tracked_only (state_key_of ''one_piece''))
     (''January 18, 2026'', ''1171'') url_op
   = (Initialize, Some (observed ''January 18, 2026'' ''1171'' url_op))"
  by code_simp

lemma reconcile_unchanged_run:
  "reconcile_spec (dict_get state_1171 (state_key_of ''one_piece''))
     (''January 18, 2026'', ''1171'') url_op
   = (Unchanged, dict_get state_1171 (state_key_of ''one_piece''))"
  by code_simp

lemma reconcile_changed_run:
  "reconcile_spec (dict_get state_1171 (state_key_of ''one_piece''))
     (''January 25, 2026'', ''1172'') url_op
   = (Changed, Some (observed ''January 25, 2026'' ''1172'' url_op))"
  by code_simp

lemma set_baseline_run:
  "dict_set state_tracked_only (state_key_of ''one_piece'')
     (observed ''January 18, 2026'' ''1171'' url_op) = state_1171"
  by code_simp

theorem poll_item_refines_reconcile_witness:
  "poll_item (env_ok page_1171) 0 (''one_piece'', url_op)
      (state_tracked_only, Json state_tracked_only, [])
    = (state_1171, Json state_1171,
       [Fetch url_op, Save state_1171, Print (Init ''one_piece'' ''1171'' ''January 18, 2026'')])
   \<and> poll_item (env_dump_fails page_1171) 0 (''one_piece'', url_op)
      (state_tracked_only, Json state_tracked_only, [])
    = (state_1171, Unparseable,
       [Fetch url_op, Save state_1171, Print (Error ''one_piece'' (OSError ''ENOSPC''))])
   \<and> poll_item (env_ok page_1171) 0 (''one_piece'', url_op) (state_1171, Json state_1171, [])
    = (state_1171, Json state_1171, [Fetch url_op, Print (Ok ''one_piece'' ''1171'')])
   \<and> poll_item (env_ok page_1172) 0 (''one_piece'', url_op) (state_1171, Json state_1171, [])
    = (state_1172, Json state_1172,
       [Fetch url_op, Send ''one_piece'' ''1172'' ''January 25, 2026'' url_op, Save state_1172,
        Print (Notified ''one_piece'' ''1172'' ''January 25, 2026'')])
   \<and> poll_item (env_send_fails page_1172) 0 (''one_piece'', url_op)
      (state_1171, Json state_1171, [])
    = (state_1171, Json state_1171,
       [Fetch url_op, Send ''one_piece'' ''1172'' ''January 25, 2026'' url_op,
        Print (Error ''one_piece'' (DiscordException ''403''))])"
proof -
  have ok: "channel_send (env_ok p) 0 = None" "write_outcome (env_ok p) 0 = Completed" for p
    by (simp_all add: env_ok_def)
  have sf: "channel_send (env_send_fails p) 0 = Some (DiscordException ''403'')" for p
    by (simp add: env_send_fails_def env_ok_def)
  have df: "write_outcome (env_dump_fails p) 0 = DumpFailed (OSError ''ENOSPC'')" for p
    by (simp add: env_dump_fails_def env_ok_def)
  have 1: "poll_item (env_ok page_1171) 0 (''one_piece'', url_op)
      (state_tracked_only, Json state_tracked_only, [])
    = (state_1171, Json state_1171,
       [Fetch url_op, Save state_1171, Print (Init ''one_piece'' ''1171'' ''January 18, 2026'')])"
    using poll_item_refines_reconcile[OF fetch_env_ok parse_env_ok_1171,
            where i = 0 and url = url_op and state = state_tracked_only and name = "''one_piece''"
              and disk = "Json state_tracked_only" and tr = "[]"]
    by (simp add: reconcile_initialize_run set_baseline_run ok Let_def)
  have 2: "poll_item (env_dump_fails page_1171) 0 (''one_piece'', url_op)
      (state_tracked_only, Json state_tracked_only, [])
    = (state_1171, Unparseable,
       [Fetch url_op, Save state_1171, Print (Error ''one_piece'' (OSError ''ENOSPC''))])"
    using poll_item_refines_reconcile[OF fetch_env_dump_fails parse_env_dump_fails_1171,
            where i = 0 and url = url_op and state = state_tracked_only and name = "''one_piece''"
              and disk = "Json state_tracked_only" and tr = "[]"]
    by (simp add: reconcile_initialize_run set_baseline_run df Let_def)
  have 3: "poll_item (env_ok page_1171) 0 (''one_piece'', url_op) (state_1171, Json state_1171, [])
    = (state_1171, Json state_1171, [Fetch url_op, Print (Ok ''one_piece'' ''1171'')])"
    using poll_item_refines_reconcile[OF fetch_env_ok parse_env_ok_1171,
            where i = 0 and url = url_op and state = state_1171 and name = "''one_piece''"
              and disk = "Json state_1171" and tr = "[]"]
    by (simp add: reconcile_unchanged_run)
  have 4: "poll_item (env_ok page_1172) 0 (''one_piece'', url_op) (state_1171, Json state_1171, [])
    = (state_1172, Json state_1172,
       [Fetch url_op, Send ''one_piece'' ''1172'' ''January 25, 2026'' url_op, Save state_1172,
        Print (Notified ''one_piece'' ''1172'' ''January 25, 2026'')])"
    using poll_item_refines_reconcile[OF fetch_env_ok parse_env_ok_1172,
            where i = 0 and url = url_op and state = state_1171 and name = "''one_piece''"
              and disk = "Json state_1171" and tr = "[]"]
    by (simp add: reconcile_changed_run set_changed_run ok Let_def)
  have 5: "poll_item (env_send_fails page_1172) 0 (''one_piece'', url_op)
      (state_1171, Json state_1171, [])
    = (state_1171, Json state_1171,
       [Fetch url_op, Send ''one_piece'' ''1172'' ''January 25, 2026'' url_op,
        Print (Error ''one_piece'' (DiscordException ''403''))])"
    using poll_item_refines_reconcile[OF fetch_env_send_fails parse_env_send_fails_1172,
            where i = 0 and url = url_op and state = state_1171 and name = "''one_piece''"
              and disk = "Json state_1171" and tr = "[]"]
    by (simp add: reconcile_changed_run set_changed_run sf Let_def)
  show ?thesis using 1 2 3 4 5 by (intro conjI)
qed

text \<open>
  C2 as stated fails. On Changed the stored value is not replaced when the send
  raises: the Reconciler decides Changed with the fresh value, and after the iteration
  the state in memory and the state file still hold the previous value. On Initialize
  the baseline does not reach the file when the save raises.
\<close>

theorem poll_item_changed_send_raises_counterexample:
  "reconcile_spec (dict_get state_1171 (state_key_of ''one_piece''))
     (''January 25, 2026'', ''1172'') url_op
     = (Changed, Some (observed ''January 25, 2026'' ''1172'' url_op))
   \<and> fetch_html (env_send_fails page_1172) 0 url_op = Inr page_1172
   \<and> parse_latest_chapter (get_text (env_send_fails page_1172)) page_1172
     = Inr (Some (''January 25, 2026'', ''1172''))
   \<and> dict_get (fst (poll_item (env_send_fails page_1172) 0 (''one_piece'', url_op)
                        (state_1171, Json state_1171, [])))
        (state_key_of ''one_piece'')
     = Some (observed ''January 18, 2026'' ''1171'' url_op)
   \<and> fst (snd (poll_item (env_send_fails page_1172) 0 (''one_piece'', url_op)
                  (state_1171, Json state_1171, []))) = Json state_1171
   \<and> observed ''January 18, 2026'' ''1171'' url_op \<noteq> observed ''January 25, 2026'' ''1172'' url_op
   \<and> reconcile_spec (dict_get state_tracked_only (state_key_of ''one_piece''))
       (''January 18, 2026'', ''1171'') url_op
     = (Initialize, Some (observed ''January 18, 2026'' ''1171'' url_op))
   \<and> fst (snd (poll_item (env_dump_fails page_1171) 0 (''one_piece'', url_op)
                  (state_tracked_only, Json state_tracked_only, []))) = Unparseable"
  by code_simp

section \<open>Notification and persistence of a change (C1)\<close>

text \<open>
  C1, as the code has it. For an item whose stored value differs from the fresh one,
  the iteration sends the notification first and sets and saves the new value only
  after the send has returned. When the send raises, the error is logged and nothing
  is set or saved: the state in memory and the state file keep the previous value, so
  an iteration of a later cycle that finds the same fresh value sends the notification
  again.
\<close>

theorem poll_item_changed_sends_then_saves:
  assumes "fetch_html env i url = Inr html"
      and "parse_latest_chapter (get_text env) html = Inr (Some (d, c))"
      and "dict_get state (state_key_of name) = Some prev"
      and "dict_get prev ''ch'' \<noteq> Some c \<or> dict_get prev ''date'' \<noteq> Some d"
  shows "(channel_send env i = None \<longrightarrow>
            poll_item env i (name, url) (state, disk, tr)
            = (dict_set state (state_key_of name) (observed d c url),
               snd (save_state (write_outcome env i)
                      (dict_set state (state_key_of name) (observed d c url)) disk),
               tr @ [Fetch url, Send name c d url,
                     Save (dict_set state (state_key_of name) (observed d c url)),
                     Print (case fst (save_state (write_outcome env i)
                                   (dict_set state (state_key_of name) (observed d c url)) disk) of
                              None \<Rightarrow> Notified name c d
                            | Some e \<Rightarrow> Error name e)]))
       \<and> (\<forall>e. channel_send env i = Some e \<longrightarrow>
            poll_item env i (name, url) (state, disk, tr)
            = (state, disk, tr @ [Fetch url, Send name c d url, Print (Error name e)])
            \<and> (\<forall>env' j html'. fetch_html env' j url = Inr html'
                  \<and> parse_latest_chapter (get_text env') html' = Inr (Some (d, c))
                \<longrightarrow> sends (snd (snd (poll_item env' j (name, url)
                                        (poll_item env i (name, url) (state, disk, tr)))))
                    = sends tr @ [(name, c, d, url), (name, c, d, url)]))"
proof -
  have in_state: "dict_in (state_key_of name) state"
    using assms(3) by (simp add: dict_in_get)
  have ok: "poll_item env i (name, url) (state, disk, tr)
            = (dict_set state (state_key_of name) (observed d c url),
               snd (save_state (write_outcome env i)
                      (dict_set state (state_key_of name) (observed d c url)) disk),
               tr @ [Fetch url, Send name c d url,
                     Save (dict_set state (state_key_of name) (observed d c url)),
                     Print (case fst (save_state (write_outcome env i)
                                   (dict_set state (state_key_of name) (observed d c url)) disk) of
                              None \<Rightarrow> Notified name c d
                            | Some e \<Rightarrow> Error name e)])"
    if "channel_send env i = None"
    using assms in_state that
    by (auto simp: poll_item_def Let_def split: prod.splits option.splits)
  have failed: "poll_item env i (name, url) (state, disk, tr)
            = (state, disk, tr @ [Fetch url, Send name c d url, Print (Error name e)])"
    if "channel_send env i = Some e" for e
    using assms in_state that by (auto simp: poll_item_def Let_def)
  have again: "sends (snd (snd (poll_item env' j (name, url)
                                        (poll_item env i (name, url) (state, disk, tr)))))
                    = sends tr @ [(name, c, d, url), (name, c, d, url)]"
    if "channel_send env i = Some e" "fetch_html env' j url = Inr html'"
       "parse_latest_chapter (get_text env') html' = Inr (Some (d, c))" for e env' j html'
    using assms(3,4) in_state that(2,3) unfolding failed[OF that(1)]
    by (auto simp: poll_item_def Let_def sends_append split: prod.splits option.splits)
  show ?thesis using ok failed again by blast
qed

lemma state_1171_prev:
  "dict_get state_1171 (state_key_of ''one_piece'')
     = Some [(''date'', ''January 18, 2026''), (''ch'', ''1171''), (''url'', url_op)]"
  by code_simp

lemma state_1171_prev_differs:
  "dict_get [(''date'', ''January 18, 2026''), (''ch'', ''1171''), (''url'', url_op)] ''ch''
      \<noteq> Some ''1172''
   \<or> dict_get [(''date'', ''January 18, 2026''), (''ch'', ''1171''), (''url'', url_op)] ''date''
      \<noteq> Some ''January 25, 2026''"
  by code_simp

theorem poll_item_changed_sends_then_saves_witness:
  "poll_item (env_ok page_1172) 0 (''one_piece'', url_op) (state_1171, Json state_1171, [])
    = (state_1172, Json state_1172,
       [Fetch url_op, Send ''one_piece'' ''1172'' ''January 25, 2026'' url_op, Save state_1172,
        Print (Notified ''one_piece'' ''1172'' ''January 25, 2026'')])
   \<and> poll_item (env_send_fails page_1172) 0 (''one_piece'', url_op)
        (state_1171, Json state_1171, [])
    = (state_1171, Json state_1171,
       [Fetch url_op, Send ''one_piece'' ''1172'' ''January 25, 2026'' url_op,
        Print (Error ''one_piece'' (DiscordException ''403''))])
   \<and> sends (snd (snd (poll_item (env_ok page_1172) 0 (''one_piece'', url_op)
                        (poll_item (env_send_fails page_1172) 0 (''one_piece'', url_op)
                           (state_1171, Json state_1171, [])))))
    = [(''one_piece'', ''1172'', ''January 25, 2026'', url_op),
       (''one_piece'', ''1172'', ''January 25, 2026'', url_op)]"
proof -
  have ok: "channel_send (env_ok p) 0 = None" "write_outcome (env_ok p) 0 = Completed" for p
    by (simp_all add: env_ok_def)
  have bad: "channel_send (env_send_fails p) 0 = Some (DiscordException ''403'')" for p
    by (simp add: env_send_fails_def)
  have f: "fetch_html (env_send_fails p) 0 url_op = Inr p" for p
    by (simp add: env_send_fails_def env_ok_def)
  note A = poll_item_changed_sends_then_saves[OF fetch_env_ok parse_env_ok_1172
             state_1171_prev state_1171_prev_differs,
             where i = 0 and url = url_op and disk = "Json state_1171" and tr = "[]"]
  note B = poll_item_changed_sends_then_saves[OF f parse_env_send_fails_1172
             state_1171_prev state_1171_prev_differs,
             where disk = "Json state_1171" and tr = "[]"]
  have 1: "poll_item (env_ok page_1172) 0 (''one_piece'', url_op) (state_1171, Json state_1171, [])
    = (state_1172, Json state_1172,
       [Fetch url_op, Send ''one_piece'' ''1172'' ''January 25, 2026'' url_op, Save state_1172,
        Print (Notified ''one_piece'' ''1172'' ''January 25, 2026'')])"
    using A by (simp add: ok set_changed_run)
  have 2: "poll_item (env_send_fails page_1172) 0 (''one_piece'', url_op)
        (state_1171, Json state_1171, [])
    = (state_1171, Json state_1171,
       [Fetch url_op, Send ''one_piece'' ''1172'' ''January 25, 2026'' url_op,
        Print (Error ''one_piece'' (DiscordException ''403''))])"
    using B[THEN conjunct2, THEN spec, THEN mp, OF bad, THEN conjunct1] by simp
  have 3: "sends (snd (snd (poll_item (env_ok page_1172) 0 (''one_piece'', url_op)
                        (poll_item (env_send_fails page_1172) 0 (''one_piece'', url_op)
                           (state_1171, Json state_1171, [])))))
    = sends [] @ [(''one_piece'', ''1172'', ''January 25, 2026'', url_op),
       (''one_piece'', ''1172'', ''January 25, 2026'', url_op)]"
    using B[THEN conjunct2, THEN spec, THEN mp, OF bad, THEN conjunct2, rule_format,
                 OF conjI[OF fetch_env_ok parse_env_ok_1172]] by simp
  show ?thesis unfolding 1 2 using 3 unfolding 2 by simp
qed

text \<open>
  C1 as stated fails. In a cycle in which the send raises, the trace holds the send and
  no save, and the state file keeps the value of chapter 1171 although the page shows
  chapter 1172; the next cycle sends the notification again, and only then saves.
\<close>

theorem poll_updates_send_failure_counterexample:
  "poll_updates (env_send_fails page_1172) (Json state_1171)
     = (None, Json state_1171,
        [Fetch url_op, Send ''one_piece'' ''1172'' ''January 25, 2026'' url_op,
         Print (Error ''one_piece'' (DiscordException ''403''))])
   \<and> poll_updates (env_ok page_1172) (Json state_1171)
     = (None, Json state_1172,
        [Fetch url_op, Send ''one_piece'' ''1172'' ''January 25, 2026'' url_op, Save state_1172,
         Print (Notified ''one_piece'' ''1172'' ''January 25, 2026'')])
   \<and> state_1171 \<noteq> state_1172"
  by code_simp

section \<open>Isolation of failures in the sweep (C7)\<close>

lemma poll_item_events:
  "\<exists>state' disk' evs l.
      poll_item env k (name, url) (state, disk, tr) = (state', disk', tr @ evs)
      \<and> fetched evs = [url] \<and> printed evs = [l] \<and> log_name l = Some name
      \<and> last evs = Print l"
  by (cases "write_outcome env k")
     (auto simp: poll_item_def Let_def split: sum.splits option.splits prod.splits)

lemma poll_loop_append:
  "poll_loop env i (xs @ ys) w = poll_loop env (i + length xs) ys (poll_loop env i xs w)"
  by (induction xs arbitrary: i w) simp_all

lemma poll_loop_trace:
  "\<exists>state' disk' evs.
      poll_loop env i items (state, disk, tr) = (state', disk', tr @ evs)
      \<and> fetched evs = map snd items
      \<and> map log_name (printed evs) = map (\<lambda>item. Some (fst item)) items"
proof (induction items arbitrary: i state disk tr)
  case Nil
  then show ?case by simp
next
  case (Cons item items)
  obtain name url where item: "item = (name, url)" by (cases item)
  obtain state1 disk1 evs1 l where
    step: "poll_item env i (name, url) (state, disk, tr) = (state1, disk1, tr @ evs1)"
    and f: "fetched evs1 = [url]" and p: "printed evs1 = [l]" and n: "log_name l = Some name"
    using poll_item_events[of env i name url state disk tr] by (elim exE conjE)
  from Cons.IH[of "Suc i" state1 disk1 "tr @ evs1"] obtain state2 disk2 evs2 where
    rest: "poll_loop env (Suc i) items (state1, disk1, tr @ evs1)
             = (state2, disk2, (tr @ evs1) @ evs2)"
    and f2: "fetched evs2 = map snd items"
    and p2: "map log_name (printed evs2) = map (\<lambda>item. Some (fst item)) items"
    by (elim exE conjE)
  have "poll_loop env i (item # items) (state, disk, tr) = (state2, disk2, tr @ (evs1 @ evs2))"
    by (simp add: item step rest)
  moreover have "fetched (evs1 @ evs2) = map snd (item # items)"
    by (simp add: fetched_append f f2 item)
  moreover have "map log_name (printed (evs1 @ evs2))
                   = map (\<lambda>item. Some (fst item)) (item # items)"
    by (simp add: printed_append p p2 n item)
  ultimately show ?case by (intro exI conjI)
qed

lemma poll_loop_line:
  assumes "j < length items"
  shows "printed (snd (snd (poll_loop env i items (state, disk, tr)))) ! (length (printed tr) + j)
         = last (printed (snd (snd (poll_item env (i + j) (items ! j)
                                      (poll_loop env i (take j items) (state, disk, tr))))))"
proof -
  obtain state1 disk1 evs1 where
    w1: "poll_loop env i (take j items) (state, disk, tr) = (state1, disk1, tr @ evs1)"
    and p1: "map log_name (printed evs1) = map (\<lambda>item. Some (fst item)) (take j items)"
    using poll_loop_trace[of env i "take j items" state disk tr] by (elim exE conjE)
  have "length (map log_name (printed evs1)) = length (take j items)"
    unfolding p1 by simp
  then have l1: "length (printed evs1) = j" using assms by simp
  obtain name url where item: "items ! j = (name, url)" by (cases "items ! j")
  obtain state2 disk2 evs2 l where
    w2: "poll_item env (i + j) (name, url) (state1, disk1, tr @ evs1)
           = (state2, disk2, (tr @ evs1) @ evs2)"
    and p2: "printed evs2 = [l]"
    using poll_item_events[of env "i + j" name url state1 disk1 "tr @ evs1"]
    by (elim exE conjE)
  obtain state3 disk3 evs3 where
    w3: "poll_loop env (Suc (i + j)) (drop (Suc j) items) (state2, disk2, (tr @ evs1) @ evs2)
           = (state3, disk3, ((tr @ evs1) @ evs2) @ evs3)"
    using poll_loop_trace[of env "Suc (i + j)" "drop (Suc j) items" state2 disk2
            "(tr @ evs1) @ evs2"] by (elim exE conjE)
  have "poll_loop env i items (state, disk, tr)
          = poll_loop env i (take j items @ items ! j # drop (Suc j) items) (state, disk, tr)"
    by (simp only: id_take_nth_drop[OF assms, symmetric])
  also have "\<dots> = (state3, disk3, ((tr @ evs1) @ evs2) @ evs3)"
    using assms w2 w3 by (simp add: poll_loop_append w1 item)
  finally have whole: "poll_loop env i items (state, disk, tr)
                         = (state3, disk3, ((tr @ evs1) @ evs2) @ evs3)" .
  have a: "printed (snd (snd (poll_loop env i items (state, disk, tr))))
             = (printed tr @ printed evs1) @ l # printed evs3"
    by (simp add: whole printed_append p2)
  have b: "length (printed tr @ printed evs1) = length (printed tr) + j"
    by (simp add: l1)
  have "((printed tr @ printed evs1) @ l # printed evs3) ! (length (printed tr) + j) = l"
    unfolding b[symmetric] by (rule nth_append_length)
  moreover have "last (printed (snd (snd (poll_item env (i + j) (items ! j)
                                      (poll_loop env i (take j items) (state, disk, tr)))))) = l"
    using w2 by (simp add: w1 item printed_append p2)
  ultimately show ?thesis unfolding a by simp
qed

lemma poll_item_fetch_raises:
  assumes "fetch_html env k url = Inl e"
  shows "poll_item env k (name, url) (state, disk, tr)
           = (state, disk, tr @ [Fetch url, Print (Error name e)])"
  using assms by (simp add: poll_item_def)

lemma poll_item_extract_raises:
  assumes "fetch_html env k url = Inr html" "get_text env html = Inl e"
  shows "poll_item env k (name, url) (state, disk, tr)
           = (state, disk, tr @ [Fetch url, Print (Error name e)])"
  using assms by (simp add: poll_item_def parse_latest_chapter_def)

text \<open>
  C7. Each of the steps of an iteration that can raise is inside the \<open>try\<close>: when the
  fetch raises, or the extraction raises, the iteration logs the error with the name of
  the item and leaves the state and the file alone; when the save raises, the iteration
  logs the error with the name of the item, the state in memory holds the new value and
  the file is what the failed save left; the same holds when the send raises. No
  exception leaves the iteration. After an item whose fetch or extraction raised, the
  sweep goes on with the items after it, on the state and the file that the items
  before it left. The sweep runs the iteration of each item of the
  tracked dictionary, in insertion order, on what the iterations of the items before
  it left, whatever failed in them: every item is fetched once and leaves one log line,
  with its name, in the order of the dictionary, and the line of an item is the line
  its iteration logs. No exception leaves the cycle once the state is loaded.
\<close>

theorem poll_loop_isolates_failures:
  "poll_loop env 0 (before @ (name, url) # after) w
     = poll_loop env (Suc (length before)) after
         (poll_item env (length before) (name, url) (poll_loop env 0 before w))
   \<and> (fetch_html env k url = Inl e
      \<longrightarrow> poll_item env k (name, url) (state, disk, tr)
            = (state, disk, tr @ [Fetch url, Print (Error name e)]))
   \<and> (fetch_html env k url = Inr html \<and> get_text env html = Inl e
      \<longrightarrow> poll_item env k (name, url) (state, disk, tr)
            = (state, disk, tr @ [Fetch url, Print (Error name e)]))
   \<and> (fetch_html env k url = Inr html
        \<and> parse_latest_chapter (get_text env) html = Inr (Some (d, c))
        \<and> \<not> dict_in (state_key_of name) state
        \<and> fst (save_state (write_outcome env k)
                 (dict_set state (state_key_of name) (observed d c url)) disk) = Some e
      \<longrightarrow> poll_item env k (name, url) (state, disk, tr)
            = (dict_set state (state_key_of name) (observed d c url),
               snd (save_state (write_outcome env k)
                      (dict_set state (state_key_of name) (observed d c url)) disk),
               tr @ [Fetch url, Save (dict_set state (state_key_of name) (observed d c url)),
                     Print (Error name e)]))
   \<and> (fetch_html env k url = Inr html
        \<and> parse_latest_chapter (get_text env) html = Inr (Some (d, c))
        \<and> dict_get state (state_key_of name) = Some prev
        \<and> (dict_get prev ''ch'' \<noteq> Some c \<or> dict_get prev ''date'' \<noteq> Some d)
        \<and> channel_send env k = None
        \<and> fst (save_state (write_outcome env k)
                 (dict_set state (state_key_of name) (observed d c url)) disk) = Some e
      \<longrightarrow> poll_item env k (name, url) (state, disk, tr)
            = (dict_set state (state_key_of name) (observed d c url),
               snd (save_state (write_outcome env k)
                      (dict_set state (state_key_of name) (observed d c url)) disk),
               tr @ [Fetch url, Send name c d url,
                     Save (dict_set state (state_key_of name) (observed d c url)),
                     Print (Error name e)]))
   \<and> (fetch_html env k url = Inr html
        \<and> parse_latest_chapter (get_text env) html = Inr (Some (d, c))
        \<and> dict_get state (state_key_of name) = Some prev
        \<and> (dict_get prev ''ch'' \<noteq> Some c \<or> dict_get prev ''date'' \<noteq> Some d)
        \<and> channel_send env k = Some e
      \<longrightarrow> poll_item env k (name, url) (state, disk, tr)
            = (state, disk, tr @ [Fetch url, Send name c d url, Print (Error name e)]))
   \<and> (\<exists>state' disk' evs l.
         poll_item env k (name, url) (state, disk, tr) = (state', disk', tr @ evs)
         \<and> fetched evs = [url] \<and> printed evs = [l] \<and> log_name l = Some name
         \<and> last evs = Print l)
   \<and> (\<exists>state' disk' evs.
         poll_loop env k items (state, disk, tr) = (state', disk', tr @ evs)
         \<and> fetched evs = map snd items
         \<and> map log_name (printed evs) = map (\<lambda>item. Some (fst item)) items)
   \<and> (fetch_html env (length before) url = Inl e
        \<or> (fetch_html env (length before) url = Inr html \<and> get_text env html = Inl e)
      \<longrightarrow> poll_loop env 0 (before @ (name, url) # after) (state, disk, tr)
            = poll_loop env (Suc (length before)) after
                (fst (poll_loop env 0 before (state, disk, tr)),
                 fst (snd (poll_loop env 0 before (state, disk, tr))),
                 snd (snd (poll_loop env 0 before (state, disk, tr)))
                   @ [Fetch url, Print (Error name e)]))
   \<and> (load_state disk = Inr state \<and> get_tracked state \<noteq> [] \<and> get_channel env
        \<longrightarrow> fst (poll_updates env disk) = None
            \<and> fetched (snd (snd (poll_updates env disk))) = map snd (get_tracked state)
            \<and> map log_name (printed (snd (snd (poll_updates env disk))))
                = map (\<lambda>item. Some (fst item)) (get_tracked state)
            \<and> (\<forall>j < length (get_tracked state).
                  printed (snd (snd (poll_updates env disk))) ! j
                    = last (printed (snd (snd
                        (poll_item env j (get_tracked state ! j)
                           (poll_loop env 0 (take j (get_tracked state)) (state, disk, []))))))
                  \<and> (\<forall>x. fetch_html env j (snd (get_tracked state ! j)) = Inl x
                        \<longrightarrow> printed (snd (snd (poll_updates env disk))) ! j
                              = Error (fst (get_tracked state ! j)) x)
                  \<and> (\<forall>page x. fetch_html env j (snd (get_tracked state ! j)) = Inr page
                          \<and> get_text env page = Inl x
                        \<longrightarrow> printed (snd (snd (poll_updates env disk))) ! j
                              = Error (fst (get_tracked state ! j)) x)))"
proof -
  have 1: "poll_loop env 0 (before @ (name, url) # after) w
     = poll_loop env (Suc (length before)) after
         (poll_item env (length before) (name, url) (poll_loop env 0 before w))"
    by (simp add: poll_loop_append)
  have 2: "fetch_html env k url = Inl e
      \<longrightarrow> poll_item env k (name, url) (state, disk, tr)
            = (state, disk, tr @ [Fetch url, Print (Error name e)])"
    by (simp add: poll_item_fetch_raises)
  have 3: "fetch_html env k url = Inr html \<and> get_text env html = Inl e
      \<longrightarrow> poll_item env k (name, url) (state, disk, tr)
            = (state, disk, tr @ [Fetch url, Print (Error name e)])"
    by (simp add: poll_item_extract_raises)
  have 4: "fetch_html env k url = Inr html
        \<and> parse_latest_chapter (get_text env) html = Inr (Some (d, c))
        \<and> \<not> dict_in (state_key_of name) state
        \<and> fst (save_state (write_outcome env k)
                 (dict_set state (state_key_of name) (observed d c url)) disk) = Some e
      \<longrightarrow> poll_item env k (name, url) (state, disk, tr)
            = (dict_set state (state_key_of name) (observed d c url),
               snd (save_state (write_outcome env k)
                      (dict_set state (state_key_of name) (observed d c url)) disk),
               tr @ [Fetch url, Save (dict_set state (state_key_of name) (observed d c url)),
                     Print (Error name e)])"
    by (auto simp: poll_item_def Let_def split: prod.splits option.splits)
  have 5: "fetch_html env k url = Inr html
        \<and> parse_latest_chapter (get_text env) html = Inr (Some (d, c))
        \<and> dict_get state (state_key_of name) = Some prev
        \<and> (dict_get prev ''ch'' \<noteq> Some c \<or> dict_get prev ''date'' \<noteq> Some d)
        \<and> channel_send env k = None
        \<and> fst (save_state (write_outcome env k)
                 (dict_set state (state_key_of name) (observed d c url)) disk) = Some e
      \<longrightarrow> poll_item env k (name, url) (state, disk, tr)
            = (dict_set state (state_key_of name) (observed d c url),
               snd (save_state (write_outcome env k)
                      (dict_set state (state_key_of name) (observed d c url)) disk),
               tr @ [Fetch url, Send name c d url,
                     Save (dict_set state (state_key_of name) (observed d c url)),
                     Print (Error name e)])"
    by (auto simp: poll_item_def Let_def dict_in_get split: prod.splits option.splits)
  have 6: "fetch_html env k url = Inr html
        \<and> parse_latest_chapter (get_text env) html = Inr (Some (d, c))
        \<and> dict_get state (state_key_of name) = Some prev
        \<and> (dict_get prev ''ch'' \<noteq> Some c \<or> dict_get prev ''date'' \<noteq> Some d)
        \<and> channel_send env k = Some e
      \<longrightarrow> poll_item env k (name, url) (state, disk, tr)
            = (state, disk, tr @ [Fetch url, Send name c d url, Print (Error name e)])"
    by (auto simp: poll_item_def Let_def dict_in_get)
  have 8: "fetch_html env (length before) url = Inl e
        \<or> (fetch_html env (length before) url = Inr html \<and> get_text env html = Inl e)
      \<longrightarrow> poll_loop env 0 (before @ (name, url) # after) (state, disk, tr)
            = poll_loop env (Suc (length before)) after
                (fst (poll_loop env 0 before (state, disk, tr)),
                 fst (snd (poll_loop env 0 before (state, disk, tr))),
                 snd (snd (poll_loop env 0 before (state, disk, tr)))
                   @ [Fetch url, Print (Error name e)])"
  proof
    assume h: "fetch_html env (length before) url = Inl e
        \<or> (fetch_html env (length before) url = Inr html \<and> get_text env html = Inl e)"
    obtain s1 d1 t1 where w1: "poll_loop env 0 before (state, disk, tr) = (s1, d1, t1)"
      by (cases "poll_loop env 0 before (state, disk, tr)")
    have "poll_item env (length before) (name, url) (s1, d1, t1)
            = (s1, d1, t1 @ [Fetch url, Print (Error name e)])"
      using h poll_item_fetch_raises poll_item_extract_raises by (elim disjE conjE)
    then show "poll_loop env 0 (before @ (name, url) # after) (state, disk, tr)
            = poll_loop env (Suc (length before)) after
                (fst (poll_loop env 0 before (state, disk, tr)),
                 fst (snd (poll_loop env 0 before (state, disk, tr))),
                 snd (snd (poll_loop env 0 before (state, disk, tr)))
                   @ [Fetch url, Print (Error name e)])"
      by (simp add: poll_loop_append w1)
  qed
  have 9: "fst (poll_updates env disk) = None
            \<and> fetched (snd (snd (poll_updates env disk))) = map snd (get_tracked state)
            \<and> map log_name (printed (snd (snd (poll_updates env disk))))
                = map (\<lambda>item. Some (fst item)) (get_tracked state)
            \<and> (\<forall>j < length (get_tracked state).
                  printed (snd (snd (poll_updates env disk))) ! j
                    = last (printed (snd (snd
                        (poll_item env j (get_tracked state ! j)
                           (poll_loop env 0 (take j (get_tracked state)) (state, disk, []))))))
                  \<and> (\<forall>x. fetch_html env j (snd (get_tracked state ! j)) = Inl x
                        \<longrightarrow> printed (snd (snd (poll_updates env disk))) ! j
                              = Error (fst (get_tracked state ! j)) x)
                  \<and> (\<forall>page x. fetch_html env j (snd (get_tracked state ! j)) = Inr page
                          \<and> get_text env page = Inl x
                        \<longrightarrow> printed (snd (snd (poll_updates env disk))) ! j
                              = Error (fst (get_tracked state ! j)) x))"
    if h: "load_state disk = Inr state" "get_tracked state \<noteq> []" "get_channel env"
  proof -
    have p: "poll_updates env disk
               = (None, snd (poll_loop env 0 (get_tracked state) (state, disk, [])))"
      using h by (simp add: poll_updates_def Let_def split: prod.splits)
    obtain state' disk' evs where
      w: "poll_loop env 0 (get_tracked state) (state, disk, []) = (state', disk', [] @ evs)"
      and f: "fetched evs = map snd (get_tracked state)"
      and n: "map log_name (printed evs) = map (\<lambda>item. Some (fst item)) (get_tracked state)"
      using poll_loop_trace[of env 0 "get_tracked state" state disk "[]"] by (elim exE conjE)
    have a: "fst (poll_updates env disk) = None" by (simp add: p)
    have b: "fetched (snd (snd (poll_updates env disk))) = map snd (get_tracked state)"
      by (simp add: p w f)
    have c: "map log_name (printed (snd (snd (poll_updates env disk))))
                = map (\<lambda>item. Some (fst item)) (get_tracked state)"
      by (simp add: p w n)
    have line: "printed (snd (snd (poll_updates env disk))) ! j
                    = last (printed (snd (snd
                        (poll_item env j (get_tracked state ! j)
                           (poll_loop env 0 (take j (get_tracked state)) (state, disk, []))))))"
      if "j < length (get_tracked state)" for j
      using poll_loop_line[OF that, of env 0 state disk "[]"] by (simp add: p)
    have fe: "printed (snd (snd (poll_updates env disk))) ! j = Error (fst (get_tracked state ! j)) x"
      if j: "j < length (get_tracked state)"
         and x: "fetch_html env j (snd (get_tracked state ! j)) = Inl x" for j x
    proof -
      obtain s1 d1 t1 where
        w1: "poll_loop env 0 (take j (get_tracked state)) (state, disk, []) = (s1, d1, t1)"
        by (cases "poll_loop env 0 (take j (get_tracked state)) (state, disk, [])")
      obtain nm u where item: "get_tracked state ! j = (nm, u)" by (cases "get_tracked state ! j")
      from x have "fetch_html env j u = Inl x" by (simp add: item)
      then have "poll_item env j (nm, u) (s1, d1, t1) = (s1, d1, t1 @ [Fetch u, Print (Error nm x)])"
        by (rule poll_item_fetch_raises)
      then show ?thesis
        unfolding line[OF j] by (simp add: w1 item printed_append)
    qed
    have ee: "printed (snd (snd (poll_updates env disk))) ! j = Error (fst (get_tracked state ! j)) x"
      if j: "j < length (get_tracked state)"
         and x: "fetch_html env j (snd (get_tracked state ! j)) = Inr page"
                "get_text env page = Inl x" for j page x
    proof -
      obtain s1 d1 t1 where
        w1: "poll_loop env 0 (take j (get_tracked state)) (state, disk, []) = (s1, d1, t1)"
        by (cases "poll_loop env 0 (take j (get_tracked state)) (state, disk, [])")
      obtain nm u where item: "get_tracked state ! j = (nm, u)" by (cases "get_tracked state ! j")
      from x(1) have "fetch_html env j u = Inr page" by (simp add: item)
      then have "poll_item env j (nm, u) (s1, d1, t1) = (s1, d1, t1 @ [Fetch u, Print (Error nm x)])"
        using x(2) by (rule poll_item_extract_raises)
      then show ?thesis
        unfolding line[OF j] by (simp add: w1 item printed_append)
    qed
    have q: "\<forall>j < length (get_tracked state).
                  printed (snd (snd (poll_updates env disk))) ! j
                    = last (printed (snd (snd
                        (poll_item env j (get_tracked state ! j)
                           (poll_loop env 0 (take j (get_tracked state)) (state, disk, []))))))
                  \<and> (\<forall>x. fetch_html env j (snd (get_tracked state ! j)) = Inl x
                        \<longrightarrow> printed (snd (snd (poll_updates env disk))) ! j
                              = Error (fst (get_tracked state ! j)) x)
                  \<and> (\<forall>page x. fetch_html env j (snd (get_tracked state ! j)) = Inr page
                          \<and> get_text env page = Inl x
                        \<longrightarrow> printed (snd (snd (poll_updates env disk))) ! j
                              = Error (fst (get_tracked state ! j)) x)"
    proof (intro allI impI conjI)
      fix j assume "j < length (get_tracked state)"
      then show "printed (snd (snd (poll_updates env disk))) ! j
                    = last (printed (snd (snd
                        (poll_item env j (get_tracked state ! j)
                           (poll_loop env 0 (take j (get_tracked state)) (state, disk, []))))))"
        by (rule line)
    next
      fix j x assume "j < length (get_tracked state)"
        "fetch_html env j (snd (get_tracked state ! j)) = Inl x"
      then show "printed (snd (snd (poll_updates env disk))) ! j
                   = Error (fst (get_tracked state ! j)) x"
        by (rule fe)
    next
      fix j page x assume "j < length (get_tracked state)"
        "fetch_html env j (snd (get_tracked state ! j)) = Inr page \<and> get_text env page = Inl x"
      then show "printed (snd (snd (poll_updates env disk))) ! j
                   = Error (fst (get_tracked state ! j)) x"
        using ee by (elim conjE)
    qed
    show ?thesis by (intro conjI a b c q)
  qed
  have cycle: "load_state disk = Inr state \<and> get_tracked state \<noteq> [] \<and> get_channel env
        \<longrightarrow> fst (poll_updates env disk) = None
            \<and> fetched (snd (snd (poll_updates env disk))) = map snd (get_tracked state)
            \<and> map log_name (printed (snd (snd (poll_updates env disk))))
                = map (\<lambda>item. Some (fst item)) (get_tracked state)
            \<and> (\<forall>j < length (get_tracked state).
                  printed (snd (snd (poll_updates env disk))) ! j
                    = last (printed (snd (snd
                        (poll_item env j (get_tracked state ! j)
                           (poll_loop env 0 (take j (get_tracked state)) (state, disk, []))))))
                  \<and> (\<forall>x. fetch_html env j (snd (get_tracked state ! j)) = Inl x
                        \<longrightarrow> printed (snd (snd (poll_updates env disk))) ! j
                              = Error (fst (get_tracked state ! j)) x)
                  \<and> (\<forall>page x. fetch_html env j (snd (get_tracked state ! j)) = Inr page
                          \<and> get_text env page = Inl x
                        \<longrightarrow> printed (snd (snd (poll_updates env disk))) ! j
                              = Error (fst (get_tracked state ! j)) x))"
    using 9 by (intro impI) (elim conjE)
  show ?thesis
    by (intro conjI 1 2 3 4 5 6 poll_item_events poll_loop_trace 8 cycle)
qed

lemma poll_two_first_down_run:
  "poll_updates (env_first_down page_1172) (Json state_two)
   = (None, Json state_two',
      [Fetch url_op, Print (Error ''one_piece'' (ClientError ''503'')),
       Fetch url_naruto, Send ''naruto'' ''1172'' ''January 25, 2026'' url_naruto,
       Save state_two', Print (Notified ''naruto'' ''1172'' ''January 25, 2026'')])"
  by code_simp

lemma poll_two_first_unrenderable_run:
  "poll_updates (env_first_unrenderable page_1172) (Json state_two)
   = (None, Json state_two',
      [Fetch url_op, Print (Error ''one_piece'' (ParserRejectedMarkup ''markup'')),
       Fetch url_naruto, Send ''naruto'' ''1172'' ''January 25, 2026'' url_naruto,
       Save state_two', Print (Notified ''naruto'' ''1172'' ''January 25, 2026'')])"
  by code_simp

lemma tracked_state_two:
  "get_tracked state_two = [(''one_piece'', url_op), (''naruto'', url_naruto)]"
  by code_simp

theorem poll_loop_isolates_failures_witness:
  "poll_loop (env_first_down page_1172) 0 ([] @ (''one_piece'', url_op) # [(''naruto'', url_naruto)])
       (state_two, Json state_two, [])
     = poll_loop (env_first_down page_1172) (Suc (length ([] :: string dict))) [(''naruto'', url_naruto)]
         (poll_item (env_first_down page_1172) (length ([] :: string dict)) (''one_piece'', url_op)
            (poll_loop (env_first_down page_1172) 0 [] (state_two, Json state_two, [])))
   \<and> poll_item (env_first_down page_1172) 0 (''one_piece'', url_op) (state_two, Json state_two, [])
     = (state_two, Json state_two,
        [Fetch url_op, Print (Error ''one_piece'' (ClientError ''503''))])
   \<and> poll_item (env_render_fails page_1171) 0 (''one_piece'', url_op)
        (state_1171, Json state_1171, [])
     = (state_1171, Json state_1171,
        [Fetch url_op, Print (Error ''one_piece'' (ParserRejectedMarkup ''markup''))])
   \<and> poll_item (env_dump_fails page_1171) 0 (''one_piece'', url_op)
        (state_tracked_only, Json state_tracked_only, [])
     = (state_1171, Unparseable,
        [Fetch url_op, Save state_1171, Print (Error ''one_piece'' (OSError ''ENOSPC''))])
   \<and> poll_item (env_dump_fails page_1172) 0 (''one_piece'', url_op)
        (state_1171, Json state_1171, [])
     = (state_1172, Unparseable,
        [Fetch url_op, Send ''one_piece'' ''1172'' ''January 25, 2026'' url_op, Save state_1172,
         Print (Error ''one_piece'' (OSError ''ENOSPC''))])
   \<and> poll_item (env_send_fails page_1172) 0 (''one_piece'', url_op)
        (state_1171, Json state_1171, [])
     = (state_1171, Json state_1171,
        [Fetch url_op, Send ''one_piece'' ''1172'' ''January 25, 2026'' url_op,
         Print (Error ''one_piece'' (DiscordException ''403''))])
   \<and> poll_loop (env_first_down page_1172) 0 [(''one_piece'', url_op), (''naruto'', url_naruto)]
       (state_two, Json state_two, [])
     = (state_two', Json state_two',
        [Fetch url_op, Print (Error ''one_piece'' (ClientError ''503'')),
         Fetch url_naruto, Send ''naruto'' ''1172'' ''January 25, 2026'' url_naruto,
         Save state_two', Print (Notified ''naruto'' ''1172'' ''January 25, 2026'')])
   \<and> fst (poll_updates (env_first_down page_1172) (Json state_two)) = None
   \<and> fetched (snd (snd (poll_updates (env_first_down page_1172) (Json state_two))))
       = [url_op, url_naruto]
   \<and> map log_name (printed (snd (snd (poll_updates (env_first_down page_1172) (Json state_two)))))
       = [Some ''one_piece'', Some ''naruto'']
   \<and> printed (snd (snd (poll_updates (env_first_down page_1172) (Json state_two)))) ! 0
       = Error ''one_piece'' (ClientError ''503'')
   \<and> printed (snd (snd (poll_updates (env_first_down page_1172) (Json state_two)))) ! 1
       = Notified ''naruto'' ''1172'' ''January 25, 2026''
   \<and> printed (snd (snd (poll_updates (env_first_unrenderable page_1172) (Json state_two)))) ! 0
       = Error ''one_piece'' (ParserRejectedMarkup ''markup'')"
proof -
  have 1: "poll_loop (env_first_down page_1172) 0 ([] @ (''one_piece'', url_op) # [(''naruto'', url_naruto)])
       (state_two, Json state_two, [])
     = poll_loop (env_first_down page_1172) (Suc (length ([] :: string dict))) [(''naruto'', url_naruto)]
         (poll_item (env_first_down page_1172) (length ([] :: string dict)) (''one_piece'', url_op)
            (poll_loop (env_first_down page_1172) 0 [] (state_two, Json state_two, [])))"
    by (rule poll_loop_isolates_failures[THEN conjunct1])
  have fd: "fetch_html (env_first_down page_1172) 0 url_op = Inl (ClientError ''503'')"
    by (simp add: env_first_down_def env_ok_def)
  have 2: "poll_item (env_first_down page_1172) 0 (''one_piece'', url_op)
             (state_two, Json state_two, [])
     = (state_two, Json state_two,
        [] @ [Fetch url_op, Print (Error ''one_piece'' (ClientError ''503''))])"
    by (rule poll_loop_isolates_failures[THEN conjunct2, THEN conjunct1, THEN mp, OF fd])
  have fr: "fetch_html (env_render_fails page_1171) 0 url_op = Inr page_1171"
    by (simp add: env_render_fails_def env_ok_def)
  have gr: "get_text (env_render_fails page_1171) page_1171 = Inl (ParserRejectedMarkup ''markup'')"
    by (simp add: env_render_fails_def env_ok_def)
  have 3: "poll_item (env_render_fails page_1171) 0 (''one_piece'', url_op)
        (state_1171, Json state_1171, [])
     = (state_1171, Json state_1171,
        [] @ [Fetch url_op, Print (Error ''one_piece'' (ParserRejectedMarkup ''markup''))])"
    by (rule poll_loop_isolates_failures[THEN conjunct2, THEN conjunct2, THEN conjunct1,
               THEN mp, OF conjI[OF fr gr]])
  have df: "write_outcome (env_dump_fails p) 0 = DumpFailed (OSError ''ENOSPC'')" for p
    by (simp add: env_dump_fails_def env_ok_def)
  have ni: "\<not> dict_in (state_key_of ''one_piece'') state_tracked_only" by code_simp
  have s4: "fst (save_state (write_outcome (env_dump_fails page_1171) 0)
                  (dict_set state_tracked_only (state_key_of ''one_piece'')
                     (observed ''January 18, 2026'' ''1171'' url_op))
                  (Json state_tracked_only)) = Some (OSError ''ENOSPC'')"
    by (simp add: df)
  have b4: "dict_set state_tracked_only (state_key_of ''one_piece'')
              (observed ''January 18, 2026'' ''1171'' url_op) = state_1171"
    by code_simp
  have 4: "poll_item (env_dump_fails page_1171) 0 (''one_piece'', url_op)
        (state_tracked_only, Json state_tracked_only, [])
     = (state_1171, Unparseable,
        [Fetch url_op, Save state_1171, Print (Error ''one_piece'' (OSError ''ENOSPC''))])"
    using poll_loop_isolates_failures[where tr = "[]", THEN conjunct2, THEN conjunct2,
               THEN conjunct2, THEN conjunct1, THEN mp,
               OF conjI[OF fetch_env_dump_fails conjI[OF parse_env_dump_fails_1171 conjI[OF ni s4]]]]
    by (simp add: b4 df)
  have pd: "parse_latest_chapter (get_text (env_dump_fails p)) page_1172
              = Inr (Some (''January 25, 2026'', ''1172''))" for p
    using parse_page_1172 by (simp add: env_dump_fails_def env_ok_def)
  have prev: "dict_get state_1171 (state_key_of ''one_piece'')
     = Some [(''date'', ''January 18, 2026''), (''ch'', ''1171''), (''url'', url_op)]"
    by code_simp
  have differs:
    "dict_get [(''date'', ''January 18, 2026''), (''ch'', ''1171''), (''url'', url_op)] ''ch''
       \<noteq> Some ''1172''
     \<or> dict_get [(''date'', ''January 18, 2026''), (''ch'', ''1171''), (''url'', url_op)] ''date''
       \<noteq> Some ''January 25, 2026''"
    by code_simp
  have cs: "channel_send (env_dump_fails page_1172) 0 = None"
    by (simp add: env_dump_fails_def env_ok_def)
  have s5: "fst (save_state (write_outcome (env_dump_fails page_1172) 0)
                  (dict_set state_1171 (state_key_of ''one_piece'')
                     (observed ''January 25, 2026'' ''1172'' url_op))
                  (Json state_1171)) = Some (OSError ''ENOSPC'')"
    by (simp add: df)
  have 5: "poll_item (env_dump_fails page_1172) 0 (''one_piece'', url_op)
        (state_1171, Json state_1171, [])
     = (state_1172, Unparseable,
        [Fetch url_op, Send ''one_piece'' ''1172'' ''January 25, 2026'' url_op, Save state_1172,
         Print (Error ''one_piece'' (OSError ''ENOSPC''))])"
    using poll_loop_isolates_failures[where tr = "[]", THEN conjunct2, THEN conjunct2,
               THEN conjunct2, THEN conjunct2, THEN conjunct1, THEN mp,
               OF conjI[OF fetch_env_dump_fails conjI[OF pd conjI[OF prev
                    conjI[OF differs conjI[OF cs s5]]]]]]
    by (simp add: set_changed_run df)
  have sf: "channel_send (env_send_fails page_1172) 0 = Some (DiscordException ''403'')"
    by (simp add: env_send_fails_def env_ok_def)
  have 6: "poll_item (env_send_fails page_1172) 0 (''one_piece'', url_op)
        (state_1171, Json state_1171, [])
     = (state_1171, Json state_1171,
        [] @ [Fetch url_op, Send ''one_piece'' ''1172'' ''January 25, 2026'' url_op,
         Print (Error ''one_piece'' (DiscordException ''403''))])"
    by (rule poll_loop_isolates_failures[THEN conjunct2, THEN conjunct2, THEN conjunct2,
               THEN conjunct2, THEN conjunct2, THEN conjunct1, THEN mp,
               OF conjI[OF fetch_env_send_fails conjI[OF parse_env_send_fails_1172
                    conjI[OF prev conjI[OF differs sf]]]]])
  have rest: "poll_loop (env_first_down page_1172) (Suc (length ([] :: string dict)))
                [(''naruto'', url_naruto)]
                (fst (poll_loop (env_first_down page_1172) 0 [] (state_two, Json state_two, [])),
                 fst (snd (poll_loop (env_first_down page_1172) 0 [] (state_two, Json state_two, []))),
                 snd (snd (poll_loop (env_first_down page_1172) 0 [] (state_two, Json state_two, [])))
                   @ [Fetch url_op, Print (Error ''one_piece'' (ClientError ''503''))])
     = (state_two', Json state_two',
        [Fetch url_op, Print (Error ''one_piece'' (ClientError ''503'')),
         Fetch url_naruto, Send ''naruto'' ''1172'' ''January 25, 2026'' url_naruto,
         Save state_two', Print (Notified ''naruto'' ''1172'' ''January 25, 2026'')])"
    by code_simp
  have fdl: "fetch_html (env_first_down page_1172) (length ([] :: string dict)) url_op
               = Inl (ClientError ''503'')"
    by (simp add: env_first_down_def env_ok_def)
  have 13: "poll_loop (env_first_down page_1172) 0
              ([] @ (''one_piece'', url_op) # [(''naruto'', url_naruto)])
              (state_two, Json state_two, [])
     = (state_two', Json state_two',
        [Fetch url_op, Print (Error ''one_piece'' (ClientError ''503'')),
         Fetch url_naruto, Send ''naruto'' ''1172'' ''January 25, 2026'' url_naruto,
         Save state_two', Print (Notified ''naruto'' ''1172'' ''January 25, 2026'')])"
    using poll_loop_isolates_failures[where env = "env_first_down page_1172"
            and before = "[]" and name = "''one_piece''" and url = url_op
            and after = "[(''naruto'', url_naruto)]" and state = state_two
            and disk = "Json state_two" and tr = "[]" and e = "ClientError ''503''",
            THEN conjunct2, THEN conjunct2, THEN conjunct2, THEN conjunct2, THEN conjunct2,
            THEN conjunct2, THEN conjunct2, THEN conjunct2, THEN conjunct1, THEN mp,
            OF disjI1[OF fdl]]
    unfolding rest .
  have l: "load_state (Json state_two) = Inr state_two" by simp
  have ne: "get_tracked state_two \<noteq> []" by (simp add: tracked_state_two)
  have c: "get_channel (env_first_down page_1172)"
    by (simp add: env_first_down_def env_ok_def)
  note U = poll_loop_isolates_failures[THEN conjunct2, THEN conjunct2, THEN conjunct2,
             THEN conjunct2, THEN conjunct2, THEN conjunct2, THEN conjunct2, THEN conjunct2,
             THEN conjunct2, THEN mp, OF conjI[OF l conjI[OF ne c]]]
  have 7: "fst (poll_updates (env_first_down page_1172) (Json state_two)) = None"
    by (rule U[THEN conjunct1])
  have 8: "fetched (snd (snd (poll_updates (env_first_down page_1172) (Json state_two))))
       = [url_op, url_naruto]"
    using U[THEN conjunct2, THEN conjunct1] by (simp add: tracked_state_two)
  have 9: "map log_name (printed (snd (snd (poll_updates (env_first_down page_1172) (Json state_two)))))
       = [Some ''one_piece'', Some ''naruto'']"
    using U[THEN conjunct2, THEN conjunct2, THEN conjunct1] by (simp add: tracked_state_two)
  have j0: "0 < length (get_tracked state_two)" "1 < length (get_tracked state_two)"
    by (simp_all add: tracked_state_two)
  have fd0: "fetch_html (env_first_down page_1172) 0 (snd (get_tracked state_two ! 0))
              = Inl (ClientError ''503'')"
    by (simp add: env_first_down_def env_ok_def)
  have 10: "printed (snd (snd (poll_updates (env_first_down page_1172) (Json state_two)))) ! 0
       = Error ''one_piece'' (ClientError ''503'')"
    using U[THEN conjunct2, THEN conjunct2, THEN conjunct2, THEN spec, THEN mp, OF j0(1),
            THEN conjunct2, THEN conjunct1, THEN spec, THEN mp, OF fd0]
    by (simp add: tracked_state_two)
  have it1: "last (printed (snd (snd
               (poll_item (env_first_down page_1172) 1 (get_tracked state_two ! 1)
                  (poll_loop (env_first_down page_1172) 0 (take 1 (get_tracked state_two))
                     (state_two, Json state_two, []))))))
             = Notified ''naruto'' ''1172'' ''January 25, 2026''"
    by code_simp
  have 11: "printed (snd (snd (poll_updates (env_first_down page_1172) (Json state_two)))) ! 1
       = Notified ''naruto'' ''1172'' ''January 25, 2026''"
    using U[THEN conjunct2, THEN conjunct2, THEN conjunct2, THEN spec, THEN mp, OF j0(2),
            THEN conjunct1]
    unfolding it1 .
  have c': "get_channel (env_first_unrenderable page_1172)"
    by (simp add: env_first_unrenderable_def env_ok_def)
  note V = poll_loop_isolates_failures[THEN conjunct2, THEN conjunct2, THEN conjunct2,
             THEN conjunct2, THEN conjunct2, THEN conjunct2, THEN conjunct2, THEN conjunct2,
             THEN conjunct2, THEN mp, OF conjI[OF l conjI[OF ne c']]]
  have fu: "fetch_html (env_first_unrenderable page_1172) 0 (snd (get_tracked state_two ! 0))
              = Inr ''<''"
    by (simp add: env_first_unrenderable_def env_ok_def)
  have gu: "get_text (env_first_unrenderable page_1172) ''<''
              = Inl (ParserRejectedMarkup ''markup'')"
    by (simp add: env_first_unrenderable_def env_ok_def)
  have 12: "printed (snd (snd (poll_updates (env_first_unrenderable page_1172) (Json state_two)))) ! 0
       = Error ''one_piece'' (ParserRejectedMarkup ''markup'')"
    using V[THEN conjunct2, THEN conjunct2, THEN conjunct2, THEN spec, THEN mp, OF j0(1),
            THEN conjunct2, THEN conjunct2, THEN spec, THEN spec, THEN mp, OF conjI[OF fu gu]]
    by (simp add: tracked_state_two)
  show ?thesis
    using 1 2 3 4 5 6 7 8 9 10 11 12 13 by (simp only: append_Nil simp_thms)
qed

section \<open>Saving is not atomic (C4)\<close>

text \<open>
  C4, as the code has it. A save that runs to completion leaves the file holding
  exactly the new state, which the next load returns; a save whose \<open>open\<close> raises leaves
  the file as it was. But the save writes in place: the file is truncated when it is
  opened and filled afterwards, so a save that is interrupted in between leaves a file
  that holds neither the previous nor the new state, and that the next load rejects.
\<close>

theorem save_state_completes_or_truncates:
  "(how = Completed \<longrightarrow>
      save_state how state disk = (None, Json state)
      \<and> load_state (snd (save_state how state disk)) = Inr state)
   \<and> (\<forall>e. how = OpenFailed e \<longrightarrow> save_state how state disk = (Some e, disk))
   \<and> (\<forall>e. how = DumpFailed e \<longrightarrow>
        save_state how state disk = (Some e, Unparseable)
        \<and> load_state (snd (save_state how state disk)) = Inl JSONDecodeError)"
  by (cases how) simp_all

theorem save_state_completes_or_truncates_witness:
  "save_state Completed state_1172 (Json state_1171) = (None, Json state_1172)
   \<and> load_state (snd (save_state Completed state_1172 (Json state_1171))) = Inr state_1172
   \<and> save_state (OpenFailed (OSError ''EACCES'')) state_1172 (Json state_1171)
       = (Some (OSError ''EACCES''), Json state_1171)
   \<and> save_state (DumpFailed (OSError ''ENOSPC'')) state_1172 (Json state_1171)
       = (Some (OSError ''ENOSPC''), Unparseable)"
proof -
  note A = save_state_completes_or_truncates[where how = Completed and state = state_1172
             and disk = "Json state_1171"]
  note B = save_state_completes_or_truncates[where how = "OpenFailed (OSError ''EACCES'')"
             and state = state_1172 and disk = "Json state_1171"]
  note C = save_state_completes_or_truncates[where how = "DumpFailed (OSError ''ENOSPC'')"
             and state = state_1172 and disk = "Json state_1171"]
  have 1: "save_state Completed state_1172 (Json state_1171) = (None, Json state_1172)
   \<and> load_state (snd (save_state Completed state_1172 (Json state_1171))) = Inr state_1172"
    using A[THEN conjunct1] by simp
  have 2: "save_state (OpenFailed (OSError ''EACCES'')) state_1172 (Json state_1171)
       = (Some (OSError ''EACCES''), Json state_1171)"
    using B[THEN conjunct2, THEN conjunct1] by simp
  have 3: "save_state (DumpFailed (OSError ''ENOSPC'')) state_1172 (Json state_1171)
       = (Some (OSError ''ENOSPC''), Unparseable)"
    using C[THEN conjunct2, THEN conjunct2] by simp
  show ?thesis using 1 2 3 by (intro conjI) simp_all
qed

text \<open>
  C4 as stated fails: after a save of the state of chapter 1172 that is interrupted
  during the dump, the file holds neither the state of chapter 1171 that it held before
  nor the state of chapter 1172, and the next load raises. A poll cycle whose save is
  interrupted leaves the file so.
\<close>

theorem save_state_interrupted_counterexample:
  "snd (save_state (DumpFailed (OSError ''ENOSPC'')) state_1172 (Json state_1171)) \<noteq> Json state_1171
   \<and> snd (save_state (DumpFailed (OSError ''ENOSPC'')) state_1172 (Json state_1171)) \<noteq> Json state_1172
   \<and> load_state (snd (save_state (DumpFailed (OSError ''ENOSPC'')) state_1172 (Json state_1171)))
       = Inl JSONDecodeError
   \<and> poll_updates (env_dump_fails page_1172) (Json state_1171)
       = (None, Unparseable,
          [Fetch url_op, Send ''one_piece'' ''1172'' ''January 25, 2026'' url_op, Save state_1172,
           Print (Error ''one_piece'' (OSError ''ENOSPC''))])"
  by code_simp

section \<open>Observed values belong to tracked names (C6)\<close>

lemma dict_keys_pop: "dict_keys (dict_pop d k) = removeAll k (dict_keys d)"
  by (simp add: dict_keys_def dict_pop_def delete_keys)

lemma dict_get_pop: "dict_get (dict_pop d k) k' = (if k' = k then None else dict_get d k')"
  by (simp add: dict_get_def dict_pop_def delete_conv')

lemma dict_in_pop: "dict_in k' (dict_pop d k) \<longleftrightarrow> k' \<noteq> k \<and> dict_in k' d"
  by (simp add: dict_in_get dict_get_pop)

lemma dict_in_set: "dict_in k' (dict_set d k v) \<longleftrightarrow> k' = k \<or> dict_in k' d"
  by (simp add: dict_in_get dict_get_set)

lemma get_tracked_pop_latest: "get_tracked (dict_pop s (state_key_of n)) = get_tracked s"
  using state_key_neq_tracked[of n] by (auto simp: get_tracked_def dict_get_pop)

lemma state_key_of_inj: "state_key_of a = state_key_of b \<longleftrightarrow> a = b"
  by (simp add: state_key_of_def)

lemma observed_tracked_iff:
  "observed_tracked s \<longleftrightarrow>
     (\<forall>k. dict_in k s \<longrightarrow> k = ''tracked'' \<or> (\<exists>n. dict_in n (get_tracked s) \<and> k = state_key_of n))"
  by (auto simp: observed_tracked_def list_all_iff dict_in_def)

lemma observed_tracked_empty: "observed_tracked []"
  by (simp add: observed_tracked_def dict_keys_def)

lemma observed_trackedD:
  "observed_tracked s \<Longrightarrow> dict_in k s \<Longrightarrow>
     k = ''tracked'' \<or> (\<exists>m. dict_in m (get_tracked s) \<and> k = state_key_of m)"
  by (simp add: observed_tracked_iff)

lemma dict_in_set_tracked: "dict_in k (set_tracked s t) \<longleftrightarrow> k = ''tracked'' \<or> dict_in k s"
  by (simp add: set_tracked_def dict_in_set)

lemma observed_tracked_set_latest:
  assumes "observed_tracked s" "dict_in n (get_tracked s)"
  shows "observed_tracked (dict_set s (state_key_of n) v)"
  unfolding observed_tracked_iff get_tracked_set_latest dict_in_set
proof (intro allI impI)
  fix k assume "k = state_key_of n \<or> dict_in k s"
  then show "k = ''tracked'' \<or> (\<exists>m. dict_in m (get_tracked s) \<and> k = state_key_of m)"
  proof
    assume "k = state_key_of n"
    with assms(2) show ?thesis by (intro disjI2 exI[of _ n]) simp
  next
    assume "dict_in k s"
    with assms(1) show ?thesis by (rule observed_trackedD)
  qed
qed

lemma observed_tracked_track:
  assumes "observed_tracked s"
  shows "observed_tracked
           (dict_set (set_tracked s (dict_set (get_tracked s) n url)) (state_key_of n) v)"
  unfolding observed_tracked_iff get_tracked_set_latest get_tracked_set_tracked dict_in_set
    dict_in_set_tracked
proof (intro allI impI)
  fix k assume "k = state_key_of n \<or> k = ''tracked'' \<or> dict_in k s"
  then consider "k = state_key_of n" | "k = ''tracked''" | "dict_in k s" by (elim disjE)
  then show "k = ''tracked'' \<or>
               (\<exists>m. (m = n \<or> dict_in m (get_tracked s)) \<and> k = state_key_of m)"
  proof cases
    case 1
    then show ?thesis by (intro disjI2 exI[of _ n]) simp
  next
    case 2
    then show ?thesis by (rule disjI1)
  next
    case 3
    with assms have "k = ''tracked'' \<or> (\<exists>m. dict_in m (get_tracked s) \<and> k = state_key_of m)"
      by (rule observed_trackedD)
    then show ?thesis
    proof
      assume "k = ''tracked''" then show ?thesis by (rule disjI1)
    next
      assume "\<exists>m. dict_in m (get_tracked s) \<and> k = state_key_of m"
      then obtain m where "dict_in m (get_tracked s)" "k = state_key_of m" by (elim exE conjE)
      then show ?thesis by (intro disjI2 exI[of _ m]) simp
    qed
  qed
qed

lemma observed_tracked_untrack:
  assumes "observed_tracked s"
  shows "observed_tracked
           (dict_pop (set_tracked s (dict_pop (get_tracked s) n)) (state_key_of n))"
  unfolding observed_tracked_iff get_tracked_pop_latest get_tracked_set_tracked dict_in_pop
    dict_in_set_tracked
proof (intro allI impI)
  fix k assume k: "k \<noteq> state_key_of n \<and> (k = ''tracked'' \<or> dict_in k s)"
  then consider "k = ''tracked''" | "dict_in k s" by (elim conjE disjE)
  then show "k = ''tracked'' \<or>
               (\<exists>m. (m \<noteq> n \<and> dict_in m (get_tracked s)) \<and> k = state_key_of m)"
  proof cases
    case 1
    then show ?thesis by (rule disjI1)
  next
    case 2
    with assms have "k = ''tracked'' \<or> (\<exists>m. dict_in m (get_tracked s) \<and> k = state_key_of m)"
      by (rule observed_trackedD)
    then show ?thesis
    proof
      assume "k = ''tracked''" then show ?thesis by (rule disjI1)
    next
      assume "\<exists>m. dict_in m (get_tracked s) \<and> k = state_key_of m"
      then obtain m where m: "dict_in m (get_tracked s)" "k = state_key_of m"
        by (elim exE conjE)
      with k have "m \<noteq> n" by (simp add: state_key_of_inj)
      with m show ?thesis by (intro disjI2 exI[of _ m]) simp
    qed
  qed
qed

lemma poll_item_shape:
  assumes "poll_item env i (name, url) (state, disk, tr) = (state', disk', tr')"
  shows "(state' = state \<or> (\<exists>v. state' = dict_set state (state_key_of name) v))
       \<and> (disk' = disk \<or> disk' = Unparseable \<or> disk' = Json state')"
  using assms
  by (cases "write_outcome env i")
     (auto simp: poll_item_def Let_def split: sum.splits option.splits prod.splits if_splits)

lemma poll_item_invariant:
  assumes "poll_item env i (name, url) (state, disk, tr) = (state', disk', tr')"
      and "observed_tracked state" "dict_in name (get_tracked state)"
      and "\<forall>s. disk = Json s \<longrightarrow> observed_tracked s"
  shows "observed_tracked state' \<and> get_tracked state' = get_tracked state
       \<and> (\<forall>s. disk' = Json s \<longrightarrow> observed_tracked s)"
proof -
  note sh = poll_item_shape[OF assms(1)]
  from sh have st: "state' = state \<or> (\<exists>v. state' = dict_set state (state_key_of name) v)"
    by (rule conjunct1)
  have 1: "observed_tracked state'"
    using st assms(2,3) by (auto intro: observed_tracked_set_latest)
  have 2: "get_tracked state' = get_tracked state"
    using st by (auto simp: get_tracked_set_latest)
  from sh have "disk' = disk \<or> disk' = Unparseable \<or> disk' = Json state'"
    by (rule conjunct2)
  then have 3: "\<forall>s. disk' = Json s \<longrightarrow> observed_tracked s"
    using assms(4) 1 by auto
  show ?thesis using 1 2 3 by (intro conjI)
qed

lemma poll_loop_invariant:
  assumes "poll_loop env i items (state, disk, tr) = (state', disk', tr')"
      and "observed_tracked state" "\<forall>item \<in> set items. dict_in (fst item) (get_tracked state)"
      and "\<forall>s. disk = Json s \<longrightarrow> observed_tracked s"
  shows "\<forall>s. disk' = Json s \<longrightarrow> observed_tracked s"
  using assms
proof (induction items arbitrary: i state disk tr)
  case Nil
  then show ?case by simp
next
  case (Cons item items)
  obtain name url where item: "item = (name, url)" by (cases item)
  obtain state1 disk1 tr1 where
    step: "poll_item env i (name, url) (state, disk, tr) = (state1, disk1, tr1)"
    by (cases "poll_item env i (name, url) (state, disk, tr)")
  have inn: "dict_in name (get_tracked state)" using Cons.prems(3) item by simp
  note inv = poll_item_invariant[OF step Cons.prems(2) inn Cons.prems(4)]
  have rest: "poll_loop env (Suc i) items (state1, disk1, tr1) = (state', disk', tr')"
    using Cons.prems(1) by (simp add: item step)
  have items: "\<forall>item \<in> set items. dict_in (fst item) (get_tracked state1)"
    using Cons.prems(3) inv by simp
  show ?case
    using Cons.IH[OF rest _ items] inv by blast
qed

lemma load_state_invariant:
  assumes "load_state disk = Inr state" "\<forall>s. disk = Json s \<longrightarrow> observed_tracked s"
  shows "observed_tracked state"
  using assms by (cases disk) (simp_all add: observed_tracked_empty)

lemma poll_updates_invariant:
  assumes "poll_updates env disk = (r, disk', tr)" "\<forall>s. disk = Json s \<longrightarrow> observed_tracked s"
  shows "\<forall>s. disk' = Json s \<longrightarrow> observed_tracked s"
proof (cases "load_state disk")
  case (Inl e)
  with assms show ?thesis by (simp add: poll_updates_def)
next
  case (Inr state)
  note ot = load_state_invariant[OF Inr assms(2)]
  show ?thesis
  proof (cases "get_tracked state = [] \<or> \<not> get_channel env")
    case True
    with assms Inr show ?thesis by (auto simp: poll_updates_def Let_def split: if_splits)
  next
    case False
    obtain state1 disk1 tr1 where
      loop: "poll_loop env 0 (get_tracked state) (state, disk, []) = (state1, disk1, tr1)"
      by (cases "poll_loop env 0 (get_tracked state) (state, disk, [])")
    have "disk' = disk1" using assms(1) Inr False loop by (simp add: poll_updates_def Let_def)
    moreover have "\<forall>item \<in> set (get_tracked state). dict_in (fst item) (get_tracked state)"
      by (simp add: dict_in_def dict_keys_def)
    ultimately show ?thesis
      using poll_loop_invariant[OF loop ot _ assms(2)] by simp
  qed
qed

lemma track_invariant:
  assumes "track env name url disk = (r, disk', tr)" "\<forall>s. disk = Json s \<longrightarrow> observed_tracked s"
  shows "\<forall>s. disk' = Json s \<longrightarrow> observed_tracked s"
proof (cases "load_state disk")
  case (Inl e)
  with assms show ?thesis
    by (auto simp: track_def Let_def split: if_splits sum.splits option.splits prod.splits)
next
  case (Inr state)
  note ot = observed_tracked_track[OF load_state_invariant[OF Inr assms(2)]]
  show ?thesis
    using assms Inr ot
    by (cases "write_outcome env 0")
       (auto simp: track_def Let_def split: if_splits sum.splits option.splits prod.splits)
qed

lemma untrack_invariant:
  assumes "untrack env name disk = (r, disk', tr)" "\<forall>s. disk = Json s \<longrightarrow> observed_tracked s"
  shows "\<forall>s. disk' = Json s \<longrightarrow> observed_tracked s"
proof (cases "load_state disk")
  case (Inl e)
  with assms show ?thesis by (auto simp: untrack_def)
next
  case (Inr state)
  note ot = observed_tracked_untrack[OF load_state_invariant[OF Inr assms(2)]]
  show ?thesis
    using assms Inr ot
    by (cases "write_outcome env 0")
       (auto simp: untrack_def Let_def split: if_splits sum.splits option.splits prod.splits)
qed

lemma reachable_invariant:
  "reachable disk \<Longrightarrow> \<forall>s. disk = Json s \<longrightarrow> observed_tracked s"
proof (induction rule: reachable.induct)
  case absent
  then show ?case by simp
next
  case empty
  then show ?case by (simp add: observed_tracked_empty)
next
  case (track disk env name url r disk' tr)
  then show ?case using track_invariant by blast
next
  case (untrack disk env name r disk' tr)
  then show ?case using untrack_invariant by blast
next
  case (poll disk env r disk' tr)
  then show ?case using poll_updates_invariant by blast
qed

lemma untrack_saved:
  assumes "untrack env name disk = (r, disk', tr)" "Save s \<in> set tr"
  shows "\<not> dict_in (normalize_name name) (get_tracked s)
       \<and> \<not> dict_in (state_key_of (normalize_name name)) s
       \<and> (r = None \<longrightarrow> disk' = Json s)"
  using assms
  by (cases "write_outcome env 0")
     (auto simp: untrack_def Let_def dict_in_pop get_tracked_pop_latest get_tracked_set_tracked
        split: if_splits sum.splits option.splits prod.splits)

lemma untrack_tracked:
  assumes "load_state disk = Inr state"
      and "dict_in (normalize_name name) (get_tracked state)"
  shows "\<exists>s. untrack env name disk
               = (fst (save_state (write_outcome env 0) s disk),
                  snd (save_state (write_outcome env 0) s disk),
                  Save s # (case fst (save_state (write_outcome env 0) s disk) of
                              None \<Rightarrow> [Reply (Untracked (normalize_name name))]
                            | Some e \<Rightarrow> []))
            \<and> (write_outcome env 0 = Completed
                 \<longrightarrow> untrack env name disk
                       = (None, Json s, [Save s, Reply (Untracked (normalize_name name))]))
            \<and> \<not> dict_in (normalize_name name) (get_tracked s)
            \<and> \<not> dict_in (state_key_of (normalize_name name)) s
            \<and> (\<forall>k. k \<noteq> normalize_name name
                   \<longrightarrow> dict_get (get_tracked s) k = dict_get (get_tracked state) k)
            \<and> (\<forall>k. k \<noteq> ''tracked'' \<and> k \<noteq> state_key_of (normalize_name name)
                   \<longrightarrow> dict_get s k = dict_get state k)
            \<and> (observed_tracked state \<longrightarrow> observed_tracked s)"
proof -
  define nn where "nn = normalize_name name"
  define s where "s = dict_pop (set_tracked state (dict_pop (get_tracked state) nn)) (state_key_of nn)"
  have a: "untrack env name disk
               = (fst (save_state (write_outcome env 0) s disk),
                  snd (save_state (write_outcome env 0) s disk),
                  Save s # (case fst (save_state (write_outcome env 0) s disk) of
                              None \<Rightarrow> [Reply (Untracked nn)]
                            | Some e \<Rightarrow> []))"
    using assms
    by (cases "write_outcome env 0") (simp_all add: untrack_def Let_def s_def nn_def)
  have b: "write_outcome env 0 = Completed
             \<longrightarrow> untrack env name disk = (None, Json s, [Save s, Reply (Untracked nn)])"
    using assms by (simp add: untrack_def Let_def s_def nn_def)
  have c: "\<not> dict_in nn (get_tracked s)"
    by (simp add: s_def get_tracked_pop_latest get_tracked_set_tracked dict_in_pop)
  have d: "\<not> dict_in (state_key_of nn) s"
    by (simp add: s_def dict_in_pop)
  have e: "\<forall>k. k \<noteq> nn \<longrightarrow> dict_get (get_tracked s) k = dict_get (get_tracked state) k"
    by (simp add: s_def get_tracked_pop_latest get_tracked_set_tracked dict_get_pop)
  have f: "\<forall>k. k \<noteq> ''tracked'' \<and> k \<noteq> state_key_of nn \<longrightarrow> dict_get s k = dict_get state k"
    by (simp add: s_def dict_get_pop set_tracked_def dict_get_set)
  have g: "observed_tracked state \<longrightarrow> observed_tracked s"
    unfolding s_def by (intro impI observed_tracked_untrack)
  show ?thesis
    unfolding nn_def[symmetric] by (intro exI[of _ s] conjI a b c d e f g)
qed

text \<open>
  C6. In every state file that the commands and the poll cycle produce, starting from no
  file or an empty state, every key other than \<open>"tracked"\<close> is the key \<open>"latest:NAME"\<close>
  of a name that is in the tracked dictionary of that state: an observed value is only
  ever stored under a tracked name. \<open>untrack\<close> of a name that is tracked makes one save,
  of a state that holds neither the tracked entry nor the observed value of the
  normalised name and that keeps every other entry; when the save completes that state
  is the state file, and the reply follows. And whatever \<open>untrack\<close> saves holds neither
  entry.
\<close>

theorem reachable_observed_tracked:
  "(reachable disk \<longrightarrow> (\<forall>s. disk = Json s \<longrightarrow> observed_tracked s))
   \<and> (load_state disk = Inr state \<and> dict_in (normalize_name name) (get_tracked state)
      \<longrightarrow> (\<exists>s. untrack env name disk
                  = (fst (save_state (write_outcome env 0) s disk),
                     snd (save_state (write_outcome env 0) s disk),
                     Save s # (case fst (save_state (write_outcome env 0) s disk) of
                                 None \<Rightarrow> [Reply (Untracked (normalize_name name))]
                               | Some e \<Rightarrow> []))
               \<and> (write_outcome env 0 = Completed
                    \<longrightarrow> untrack env name disk
                          = (None, Json s, [Save s, Reply (Untracked (normalize_name name))]))
               \<and> \<not> dict_in (normalize_name name) (get_tracked s)
               \<and> \<not> dict_in (state_key_of (normalize_name name)) s
               \<and> (\<forall>k. k \<noteq> normalize_name name
                      \<longrightarrow> dict_get (get_tracked s) k = dict_get (get_tracked state) k)
               \<and> (\<forall>k. k \<noteq> ''tracked'' \<and> k \<noteq> state_key_of (normalize_name name)
                      \<longrightarrow> dict_get s k = dict_get state k)
               \<and> (observed_tracked state \<longrightarrow> observed_tracked s)))
   \<and> (\<forall>r disk' tr s.
         untrack env name disk = (r, disk', tr) \<and> Save s \<in> set tr
         \<longrightarrow> \<not> dict_in (normalize_name name) (get_tracked s)
             \<and> \<not> dict_in (state_key_of (normalize_name name)) s
             \<and> (r = None \<longrightarrow> disk' = Json s))"
proof -
  have 1: "reachable disk \<longrightarrow> (\<forall>s. disk = Json s \<longrightarrow> observed_tracked s)"
    using reachable_invariant by (rule impI)
  have 2: "load_state disk = Inr state \<and> dict_in (normalize_name name) (get_tracked state)
      \<longrightarrow> (\<exists>s. untrack env name disk
                  = (fst (save_state (write_outcome env 0) s disk),
                     snd (save_state (write_outcome env 0) s disk),
                     Save s # (case fst (save_state (write_outcome env 0) s disk) of
                                 None \<Rightarrow> [Reply (Untracked (normalize_name name))]
                               | Some e \<Rightarrow> []))
               \<and> (write_outcome env 0 = Completed
                    \<longrightarrow> untrack env name disk
                          = (None, Json s, [Save s, Reply (Untracked (normalize_name name))]))
               \<and> \<not> dict_in (normalize_name name) (get_tracked s)
               \<and> \<not> dict_in (state_key_of (normalize_name name)) s
               \<and> (\<forall>k. k \<noteq> normalize_name name
                      \<longrightarrow> dict_get (get_tracked s) k = dict_get (get_tracked state) k)
               \<and> (\<forall>k. k \<noteq> ''tracked'' \<and> k \<noteq> state_key_of (normalize_name name)
                      \<longrightarrow> dict_get s k = dict_get state k)
               \<and> (observed_tracked state \<longrightarrow> observed_tracked s))"
    using untrack_tracked[of disk state name env] by (intro impI) (elim conjE)
  have 3: "\<forall>r disk' tr s.
         untrack env name disk = (r, disk', tr) \<and> Save s \<in> set tr
         \<longrightarrow> \<not> dict_in (normalize_name name) (get_tracked s)
             \<and> \<not> dict_in (state_key_of (normalize_name name)) s
             \<and> (r = None \<longrightarrow> disk' = Json s)"
    using untrack_saved[of env name disk] by (intro allI impI) (elim conjE)
  show ?thesis by (intro conjI 1 2 3)
qed

lemma track_reaches_state_1171:
  "track (env_ok page_1171) ''One Piece'' url_op Absent
   = (None, Json state_1171,
      [Reply Deferred, Fetch url_op, Save state_1171,
       Reply (Tracking ''one_piece'' ''1171'' ''January 18, 2026'')])"
  by code_simp

lemma track_reaches_state_two:
  "track (env_ok page_1171) ''Naruto'' url_naruto (Json state_1171)
   = (None, Json state_two,
      [Reply Deferred, Fetch url_naruto, Save state_two,
       Reply (Tracking ''naruto'' ''1171'' ''January 18, 2026'')])"
  by code_simp

lemma untrack_state_two_run:
  "untrack (env_ok page_1171) ''Naruto'' (Json state_two)
   = (None, Json state_1171, [Save state_1171, Reply (Untracked ''naruto'')])"
  by code_simp

theorem reachable_observed_tracked_witness:
  "reachable (Json state_two)
   \<and> observed_tracked state_two
   \<and> untrack (env_ok page_1171) ''Naruto'' (Json state_two)
     = (None, Json state_1171, [Save state_1171, Reply (Untracked ''naruto'')])
   \<and> \<not> dict_in ''naruto'' (get_tracked state_1171)
   \<and> \<not> dict_in (state_key_of ''naruto'') state_1171
   \<and> dict_get (get_tracked state_1171) ''one_piece'' = dict_get (get_tracked state_two) ''one_piece''
   \<and> dict_get state_1171 (state_key_of ''one_piece'')
     = dict_get state_two (state_key_of ''one_piece'')
   \<and> observed_tracked state_1171"
proof -
  have r1: "reachable (Json state_1171)"
    by (rule reachable.track[OF reachable.absent track_reaches_state_1171])
  have r: "reachable (Json state_two)"
    by (rule reachable.track[OF r1 track_reaches_state_two])
  note T = reachable_observed_tracked[where disk = "Json state_two" and state = state_two
             and name = "''Naruto''" and env = "env_ok page_1171"]
  have 1: "observed_tracked state_two"
    using T[THEN conjunct1, THEN mp, OF r] by simp
  have l: "load_state (Json state_two) = Inr state_two" by simp
  have nn: "normalize_name ''Naruto'' = ''naruto''" by code_simp
  have i: "dict_in (normalize_name ''Naruto'') (get_tracked state_two)" by code_simp
  have ok: "write_outcome (env_ok page_1171) 0 = Completed" by (simp add: env_ok_def)
  from T[THEN conjunct2, THEN conjunct1, THEN mp, OF conjI[OF l i]] obtain s where
    u: "write_outcome (env_ok page_1171) 0 = Completed
          \<longrightarrow> untrack (env_ok page_1171) ''Naruto'' (Json state_two)
                = (None, Json s, [Save s, Reply (Untracked (normalize_name ''Naruto''))])"
    and a: "\<not> dict_in (normalize_name ''Naruto'') (get_tracked s)"
    and b: "\<not> dict_in (state_key_of (normalize_name ''Naruto'')) s"
    and c: "\<forall>k. k \<noteq> normalize_name ''Naruto''
              \<longrightarrow> dict_get (get_tracked s) k = dict_get (get_tracked state_two) k"
    and d: "\<forall>k. k \<noteq> ''tracked'' \<and> k \<noteq> state_key_of (normalize_name ''Naruto'')
              \<longrightarrow> dict_get s k = dict_get state_two k"
    and e: "observed_tracked state_two \<longrightarrow> observed_tracked s"
    by (elim exE conjE)
  have s: "s = state_1171"
    using u[THEN mp, OF ok] unfolding untrack_state_two_run by simp
  have 2: "untrack (env_ok page_1171) ''Naruto'' (Json state_two)
     = (None, Json state_1171, [Save state_1171, Reply (Untracked ''naruto'')])"
    using u[THEN mp, OF ok] unfolding s nn .
  have 3: "\<not> dict_in ''naruto'' (get_tracked state_1171)"
    using a unfolding s nn .
  have 4: "\<not> dict_in (state_key_of ''naruto'') state_1171"
    using b unfolding s nn .
  have k5: "''one_piece'' \<noteq> ''naruto''" by simp
  have 5: "dict_get (get_tracked state_1171) ''one_piece''
             = dict_get (get_tracked state_two) ''one_piece''"
    using c[THEN spec, THEN mp, of "''one_piece''"] k5 unfolding s nn by simp
  have k6: "state_key_of ''one_piece'' \<noteq> ''tracked''
            \<and> state_key_of ''one_piece'' \<noteq> state_key_of ''naruto''"
    by (simp add: state_key_of_def)
  have 6: "dict_get state_1171 (state_key_of ''one_piece'')
             = dict_get state_two (state_key_of ''one_piece'')"
    using d[THEN spec, THEN mp, OF k6[unfolded nn[symmetric]]] unfolding s nn
    by (simp add: nn)
  have 7: "observed_tracked state_1171"
    using e[THEN mp, OF 1] unfolding s .
  show ?thesis by (intro conjI r 1 2 3 4 5 6 7)
qed

section \<open>The matcher and the strings of a pattern\<close>






lemma in_lang_One: "w \<in> lang (One k) \<longleftrightarrow> (\<exists>c. w = [c] \<and> in_cls k c)"
  by auto



lemma in_lang_Rep:
  "w \<in> lang (Rep k lo hi) \<longleftrightarrow>
     list_all (in_cls k) w \<and> lo \<le> length w \<and> (\<forall>h. hi = Some h \<longrightarrow> length w \<le> h)"
  by simp

























section \<open>What the extractor returns (C3)\<close>







end
